theory Spec2Isabelle
  imports Complex_Main "HOL-Library.AList"
begin

section \<open>Python values, exceptions and column types\<close>

text \<open>
  The values a caller hands to the recorder.  A float is the rational it denotes, or one of
  the three non-finite values; the two zeros of binary64 are not told apart.  A string is
  the list of its characters, each a code point below 256, so that its length is what
  \<^verbatim>\<open>len\<close> returns; lists are as long as they need to be.  Any other object is a
  \<open>PObject\<close>, told apart by a number; what the built-ins make of it is the runtime's.
\<close>

datatype pyfloat = Finite rat | PosInf | NegInf | NaN

datatype pyval =
    PNone
  | PBool bool
  | PInt int
  | PFloat pyfloat
  | PComplex pyfloat pyfloat
  | PStr string
  | PObject nat

text \<open>
  The exception classes that a built-in or a caller's callable raises.  The clauses
  \<^verbatim>\<open>except ValueError\<close>, \<^verbatim>\<open>except KeyError\<close> and
  \<^verbatim>\<open>except (ValueError, TypeError)\<close> of the source tell these classes apart;
  \<open>OtherException\<close> is any class that none of them catches.
\<close>

datatype pyexc = ValueError | TypeError | OverflowError | KeyError | IndexError | OtherException

text \<open>
  A column type is a callable: \<^verbatim>\<open>int\<close>, \<^verbatim>\<open>float\<close>,
  \<^verbatim>\<open>complex\<close>, \<^verbatim>\<open>str\<close> (the keys of the default format
  table), or any other callable, given by what it returns on one argument and on none, and
  by the exception, if any, that its own representation raises when an error message
  names it.
\<close>

datatype pytype =
    TInt
  | TFloat
  | TComplex
  | TStr
  | TOther "pyval \<Rightarrow> pyexc + pyval" "pyexc + pyval" "pyexc option"

text \<open>
  The part of the Python runtime that is not modelled here is a parameter of every
  function that calls it: the conversions that parse a string or round to binary64
  (\<open>rt_call\<close>), \<^verbatim>\<open>str.format\<close> on everything but a centred string
  (\<open>rt_format\<close>), and the subtraction of two floats (\<open>rt_float_sub\<close>).
\<close>

record pyruntime =
  rt_call :: "pytype \<Rightarrow> pyval \<Rightarrow> pyexc + pyval"
  rt_format :: "string \<Rightarrow> pyval \<Rightarrow> pyexc + string"
  rt_float_sub :: "pyfloat \<Rightarrow> pyfloat \<Rightarrow> pyfloat"

subsection \<open>Decimal digits\<close>

definition is_digit :: "char \<Rightarrow> bool" where
  "is_digit c = (48 \<le> (of_char c :: nat) \<and> (of_char c :: nat) \<le> 57)"

definition digit_char :: "nat \<Rightarrow> char" where
  "digit_char d = ''0123456789'' ! d"

definition nat_of_digits :: "string \<Rightarrow> nat" where
  "nat_of_digits ds = foldl (\<lambda>n c. 10 * n + ((of_char c :: nat) - 48)) 0 ds"

text \<open>The digits of a natural number, as an f-string renders it.\<close>

function show_nat :: "nat \<Rightarrow> string" where
  "show_nat n = (if n < 10 then [digit_char n] else show_nat (n div 10) @ [digit_char (n mod 10)])"
  by pat_completeness auto
termination
  by (relation "measure id") auto

declare show_nat.simps [simp del]

subsection \<open>Calling a column type\<close>

text \<open>
  \<^verbatim>\<open>int(s)\<close> is fixed here on two kinds of string: an optional sign followed by
  digits only (at most 4300 characters, the default limit on the digits of an integer),
  and a string with a visible ASCII character that no integer literal has, which raises
  ValueError.  Whitespace, underscores and longer strings are the runtime's.
\<close>

definition int_literal :: "string \<Rightarrow> int option" where
  "int_literal s =
     (let body = (if s \<noteq> [] \<and> (hd s = CHR ''+'' \<or> hd s = CHR ''-'') then tl s else s)
      in if body \<noteq> [] \<and> list_all is_digit body \<and> length s \<le> 4300
         then Some (if s \<noteq> [] \<and> hd s = CHR ''-'' then - int (nat_of_digits body)
                    else int (nat_of_digits body))
         else None)"

definition not_in_int_literal :: "char \<Rightarrow> bool" where
  "not_in_int_literal c =
     (33 \<le> (of_char c :: nat) \<and> (of_char c :: nat) \<le> 126 \<and> \<not> is_digit c
      \<and> c \<noteq> CHR ''+'' \<and> c \<noteq> CHR ''-'' \<and> c \<noteq> CHR ''_'')"

fun py_int :: "pyruntime \<Rightarrow> pyval \<Rightarrow> pyexc + pyval" where
  "py_int rt PNone = Inl TypeError"
| "py_int rt (PBool b) = Inr (PInt (if b then 1 else 0))"
| "py_int rt (PInt i) = Inr (PInt i)"
| "py_int rt (PFloat (Finite r)) = Inr (PInt (if 0 \<le> r then \<lfloor>r\<rfloor> else \<lceil>r\<rceil>))"
| "py_int rt (PFloat NaN) = Inl ValueError"
| "py_int rt (PFloat PosInf) = Inl OverflowError"
| "py_int rt (PFloat NegInf) = Inl OverflowError"
| "py_int rt (PComplex re im) = Inl TypeError"
| "py_int rt (PObject k) = rt_call rt TInt (PObject k)"
| "py_int rt (PStr s) =
     (case int_literal s of
        Some i \<Rightarrow> Inr (PInt i)
      | None \<Rightarrow> if list_ex not_in_int_literal s then Inl ValueError
                else rt_call rt TInt (PStr s))"

text \<open>An integer of magnitude at most \<open>2 ^ 53\<close> is a float as it stands; a larger one is rounded.\<close>

fun py_float :: "pyruntime \<Rightarrow> pyval \<Rightarrow> pyexc + pyval" where
  "py_float rt PNone = Inl TypeError"
| "py_float rt (PBool b) = Inr (PFloat (Finite (if b then 1 else 0)))"
| "py_float rt (PInt i) =
     (if \<bar>i\<bar> \<le> 2 ^ 53 then Inr (PFloat (Finite (of_int i))) else rt_call rt TFloat (PInt i))"
| "py_float rt (PFloat f) = Inr (PFloat f)"
| "py_float rt (PComplex re im) = Inl TypeError"
| "py_float rt (PStr s) = rt_call rt TFloat (PStr s)"
| "py_float rt (PObject k) = rt_call rt TFloat (PObject k)"

fun py_complex :: "pyruntime \<Rightarrow> pyval \<Rightarrow> pyexc + pyval" where
  "py_complex rt PNone = Inl TypeError"
| "py_complex rt (PBool b) = Inr (PComplex (Finite (if b then 1 else 0)) (Finite 0))"
| "py_complex rt (PInt i) =
     (if \<bar>i\<bar> \<le> 2 ^ 53 then Inr (PComplex (Finite (of_int i)) (Finite 0))
      else rt_call rt TComplex (PInt i))"
| "py_complex rt (PFloat f) = Inr (PComplex f (Finite 0))"
| "py_complex rt (PComplex re im) = Inr (PComplex re im)"
| "py_complex rt (PStr s) = rt_call rt TComplex (PStr s)"
| "py_complex rt (PObject k) = rt_call rt TComplex (PObject k)"

fun py_str :: "pyruntime \<Rightarrow> pyval \<Rightarrow> pyexc + pyval" where
  "py_str rt PNone = Inr (PStr ''None'')"
| "py_str rt (PBool b) = Inr (PStr (if b then ''True'' else ''False''))"
| "py_str rt (PStr s) = Inr (PStr s)"
| "py_str rt v = rt_call rt TStr v"

text \<open>\<^verbatim>\<open>varType(value)\<close> and \<^verbatim>\<open>varType()\<close>.\<close>

fun py_call :: "pyruntime \<Rightarrow> pytype \<Rightarrow> pyval \<Rightarrow> pyexc + pyval" where
  "py_call rt TInt v = py_int rt v"
| "py_call rt TFloat v = py_float rt v"
| "py_call rt TComplex v = py_complex rt v"
| "py_call rt TStr v = py_str rt v"
| "py_call rt (TOther f z r) v = f v"

fun py_new :: "pytype \<Rightarrow> pyexc + pyval" where
  "py_new TInt = Inr (PInt 0)"
| "py_new TFloat = Inr (PFloat (Finite 0))"
| "py_new TComplex = Inr (PComplex (Finite 0) (Finite 0))"
| "py_new TStr = Inr (PStr [])"
| "py_new (TOther f z r) = z"

subsection \<open>Format templates\<close>

text \<open>
  The alignment \<^verbatim>\<open>^\<close> of the format mini-language: a string shorter than the width
  is padded with spaces, the odd one on the right; a longer string is left as it is.
\<close>

definition centre :: "nat \<Rightarrow> string \<Rightarrow> string" where
  "centre w s =
     (let pad = w - length s; left = pad div 2
      in replicate left CHR '' '' @ s @ replicate (pad - left) CHR '' '')"

text \<open>
  The templates \<^verbatim>\<open>{:^N}\<close> and \<^verbatim>\<open>{:^Ns}\<close>, with \<open>N\<close> a width that does
  not start with the digit 0 (a leading 0 is a flag, not a width).
\<close>

definition centre_width :: "string \<Rightarrow> nat option" where
  "centre_width t =
     (if take 3 t = ''{:^'' then
        (let ds = takeWhile is_digit (drop 3 t); rest = dropWhile is_digit (drop 3 t)
         in if ds \<noteq> [] \<and> hd ds \<noteq> CHR ''0'' \<and> (rest = ''}'' \<or> rest = ''s}'')
            then Some (nat_of_digits ds) else None)
      else None)"

text \<open>\<^verbatim>\<open>template.format(v)\<close>: centring a string is done here, the rest by the runtime.\<close>

definition str_format :: "pyruntime \<Rightarrow> string \<Rightarrow> pyval \<Rightarrow> pyexc + string" where
  "str_format rt t v =
     (case (centre_width t, v) of
        (Some w, PStr s) \<Rightarrow> Inr (centre w s)
      | _ \<Rightarrow> rt_format rt t v)"

section \<open>Dictionaries\<close>

text \<open>
  A dictionary is the list of its items in insertion order, with no key twice.  Storing
  under a key that is present replaces the value where it stands; a new key goes last.
\<close>

type_synonym ('k, 'v) pydict = "('k \<times> 'v) list"

definition dict_keys :: "('k, 'v) pydict \<Rightarrow> 'k list" where
  "dict_keys d = map fst d"

definition dict_contains :: "'k \<Rightarrow> ('k, 'v) pydict \<Rightarrow> bool" where
  "dict_contains k d = (k \<in> set (dict_keys d))"

definition dict_setitem :: "'k \<Rightarrow> 'v \<Rightarrow> ('k, 'v) pydict \<Rightarrow> ('k, 'v) pydict" where
  "dict_setitem k v d = AList.update k v d"

text \<open>\<^verbatim>\<open>d.pop(k)\<close>: \<open>None\<close> is the KeyError of a missing key.\<close>

definition dict_pop :: "'k \<Rightarrow> ('k, 'v) pydict \<Rightarrow> ('v \<times> ('k, 'v) pydict) option" where
  "dict_pop k d = (case map_of d k of None \<Rightarrow> None | Some v \<Rightarrow> Some (v, AList.delete k d))"

section \<open>Errors and warnings of the recorder\<close>

text \<open>
  Each \<^verbatim>\<open>raise\<close> of the source is a constructor that carries what its message
  names; \<open>Raised\<close> is an exception of a built-in or of a column type that the source
  lets through.
\<close>

datatype error =
    Raised pyexc
  | TypeConversion pyval string pytype
  | TypeConversionHistory string pytype
  | InvalidFormat string pytype
  | UnknownVariables "string list" "string list"
  | UnknownVariable string "string list"
  | NotInHistory int int
  | IterationOutOfRange int string
  | NoHeaderFormat string
  | NoPrintFormat string

datatype warning = AlreadyDefined string

subsection \<open>Building an error message\<close>

text \<open>
  The messages are f-strings, and a field of an f-string can raise while the message is
  built; the exception of the field then takes the place of the error that was to be
  raised.  None, a truth value, a string, a float, a complex number and a built-in type
  are interpolated without fail.  An integer is, too, when it has at most 4300 digits (the
  default limit on the digits of an integer); for a longer one, and for any other object,
  the runtime decides.  A caller's callable raises what its representation raises.
\<close>

definition int_digits :: "int \<Rightarrow> nat" where
  "int_digits i = length (show_nat (nat \<bar>i\<bar>))"

definition interpolate_int :: "pyruntime \<Rightarrow> int \<Rightarrow> pyexc option" where
  "interpolate_int rt i =
     (if int_digits i \<le> 4300 then None
      else (case rt_format rt ''{}'' (PInt i) of Inl e \<Rightarrow> Some e | Inr s \<Rightarrow> None))"

definition interpolate_value :: "pyruntime \<Rightarrow> pyval \<Rightarrow> pyexc option" where
  "interpolate_value rt v =
     (case v of
        PInt i \<Rightarrow> interpolate_int rt i
      | PObject k \<Rightarrow> (case rt_format rt ''{}'' v of Inl e \<Rightarrow> Some e | Inr s \<Rightarrow> None)
      | _ \<Rightarrow> None)"

definition interpolate_type :: "pytype \<Rightarrow> pyexc option" where
  "interpolate_type ty = (case ty of TOther f z r \<Rightarrow> r | _ \<Rightarrow> None)"

text \<open>The fields of a message are evaluated from left to right.\<close>

fun first_raise :: "pyexc option list \<Rightarrow> pyexc option" where
  "first_raise [] = None"
| "first_raise (Some e # rest) = Some e"
| "first_raise (None # rest) = first_raise rest"

text \<open>\<open>raise_with fs err\<close>: the error of a \<^verbatim>\<open>raise\<close> whose message has the fields \<open>fs\<close>.\<close>

definition raise_with :: "pyexc option list \<Rightarrow> error \<Rightarrow> error" where
  "raise_with fs err = (case first_raise fs of Some e \<Rightarrow> Raised e | None \<Rightarrow> err)"

section \<open>HistoryVariable\<close>

record HistoryVariable =
  name :: string
  varType :: pytype
  valueFormat :: "string option"
  headerFormat :: "string option"
  data :: "pyval list"

definition HistoryVariable_init ::
  "string \<Rightarrow> pytype \<Rightarrow> string option \<Rightarrow> string option \<Rightarrow> HistoryVariable" where
  "HistoryVariable_init n ty vf hf =
     \<lparr>name = n, varType = ty, valueFormat = vf, headerFormat = hf, data = []\<rparr>"

definition getName :: "HistoryVariable \<Rightarrow> string" where
  "getName var = name var"

definition getType :: "HistoryVariable \<Rightarrow> pytype" where
  "getType var = varType var"

definition HistoryVariable_reset :: "HistoryVariable \<Rightarrow> HistoryVariable" where
  "HistoryVariable_reset var = var\<lparr>data := []\<rparr>"

text \<open>
  A method that can raise returns the error, if any, beside the object as the call leaves
  it: an exception does not undo what was stored before it.
\<close>

definition HistoryVariable_write ::
  "pyruntime \<Rightarrow> HistoryVariable \<Rightarrow> pyval \<Rightarrow> error option \<times> HistoryVariable" where
  "HistoryVariable_write rt var v =
     (if v = PNone then (None, var\<lparr>data := data var @ [PNone]\<rparr>)
      else case py_call rt (varType var) v of
             Inr convertedValue \<Rightarrow> (None, var\<lparr>data := data var @ [convertedValue]\<rparr>)
           | Inl ValueError \<Rightarrow>
               (Some (raise_with [interpolate_value rt v, interpolate_type (varType var)]
                        (TypeConversion v (name var) (varType var))), var)
           | Inl e \<Rightarrow> (Some (Raised e), var))"

text \<open>The list comprehension of \<^verbatim>\<open>writeFullHistory\<close> stops at the first exception.\<close>

fun convert_values :: "pyruntime \<Rightarrow> pytype \<Rightarrow> pyval list \<Rightarrow> pyexc + pyval list" where
  "convert_values rt ty [] = Inr []"
| "convert_values rt ty (v # vs) =
     (case (if v = PNone then Inr PNone else py_call rt ty v) of
        Inl e \<Rightarrow> Inl e
      | Inr c \<Rightarrow> (case convert_values rt ty vs of Inl e \<Rightarrow> Inl e | Inr cs \<Rightarrow> Inr (c # cs)))"

definition HistoryVariable_writeFullHistory ::
  "pyruntime \<Rightarrow> HistoryVariable \<Rightarrow> pyval list \<Rightarrow> error option \<times> HistoryVariable" where
  "HistoryVariable_writeFullHistory rt var values =
     (case convert_values rt (varType var) values of
        Inr cs \<Rightarrow> (None, var\<lparr>data := cs\<rparr>)
      | Inl ValueError \<Rightarrow>
          (Some (raise_with [interpolate_type (varType var)]
                   (TypeConversionHistory (name var) (varType var))), var)
      | Inl e \<Rightarrow> (Some (Raised e), var))"

definition HistoryVariable_getData :: "HistoryVariable \<Rightarrow> pyval list" where
  "HistoryVariable_getData var = data var"


definition getFormattedHeaderString ::
  "pyruntime \<Rightarrow> HistoryVariable \<Rightarrow> string option \<Rightarrow> error + string" where
  "getFormattedHeaderString rt var string =
     (case headerFormat var of
        None \<Rightarrow> Inl (NoHeaderFormat (name var))
      | Some hf \<Rightarrow>
          (case str_format rt hf (PStr (case string of None \<Rightarrow> name var | Some s \<Rightarrow> s)) of
             Inl e \<Rightarrow> Inl (Raised e)
           | Inr s \<Rightarrow> Inr s))"


section \<open>SolverHistory\<close>

record SolverHistory =
  variables :: "(string, HistoryVariable) pydict"
  printVariables :: "(string, bool) pydict"
  metadata :: "(string, pyval) pydict"
  iter :: int
  startTime :: pyfloat
  includeIter :: bool
  includeTime :: bool

text \<open>The comparison \<^verbatim>\<open><\<close> of two floats; it is false when either is NaN.\<close>

fun float_less :: "pyfloat \<Rightarrow> pyfloat \<Rightarrow> bool" where
  "float_less NaN y = False"
| "float_less x NaN = False"
| "float_less (Finite a) (Finite b) = (a < b)"
| "float_less x NegInf = False"
| "float_less NegInf y = True"
| "float_less PosInf y = False"
| "float_less x PosInf = True"

definition defaultFormat :: "pytype \<Rightarrow> string option" where
  "defaultFormat ty =
     (case ty of
        TFloat \<Rightarrow> Some ''{: 17.11e}''
      | TComplex \<Rightarrow> Some ''{: 9.3e}''
      | TInt \<Rightarrow> Some ''{: 5d}''
      | TStr \<Rightarrow> Some ''{:^10}''
      | TOther f z r \<Rightarrow> None)"

definition DEFAULT_OTHER_FORMAT :: string where
  "DEFAULT_OTHER_FORMAT = ''{}''"

definition getVariables :: "SolverHistory \<Rightarrow> string list" where
  "getVariables h = dict_keys (variables h)"

definition getIter :: "SolverHistory \<Rightarrow> int" where
  "getIter h = iter h"

definition getMetadata :: "SolverHistory \<Rightarrow> (string, pyval) pydict" where
  "getMetadata h = metadata h"

definition getData :: "SolverHistory \<Rightarrow> (string, pyval list) pydict" where
  "getData h = map (\<lambda>(varName, variable). (varName, HistoryVariable_getData variable)) (variables h)"

definition reset :: "SolverHistory \<Rightarrow> bool \<Rightarrow> SolverHistory" where
  "reset h clearMetadata =
     h\<lparr>iter := 0,
       startTime := Finite (- 1),
       variables := map (\<lambda>(k, variable). (k, HistoryVariable_reset variable)) (variables h),
       metadata := (if clearMetadata then [] else metadata h)\<rparr>"

definition addMetadata :: "SolverHistory \<Rightarrow> string \<Rightarrow> pyval \<Rightarrow> SolverHistory" where
  "addMetadata h n d = h\<lparr>metadata := dict_setitem n d (metadata h)\<rparr>"

text \<open>The header template \<^verbatim>\<open>f"{{:^{(columnWidth + 4)}s}}"\<close>.\<close>

definition header_template :: "nat \<Rightarrow> string" where
  "header_template w = ''{:^'' @ show_nat w @ ''s}''"

text \<open>
  \<^verbatim>\<open>valueFormat.format(varType())\<close>, the test of the format on the default value of
  the type.
\<close>

definition testString :: "pyruntime \<Rightarrow> string \<Rightarrow> pytype \<Rightarrow> pyexc + string" where
  "testString rt vf ty = (case py_new ty of Inl e \<Rightarrow> Inl e | Inr z \<Rightarrow> str_format rt vf z)"

text \<open>The value format of a new column: the caller's, or the default for the type.\<close>

definition chooseFormat :: "string option \<Rightarrow> pytype \<Rightarrow> string" where
  "chooseFormat valueFormat0 ty =
     (case valueFormat0 of
        Some f \<Rightarrow> f
      | None \<Rightarrow> (case defaultFormat ty of Some f \<Rightarrow> f | None \<Rightarrow> DEFAULT_OTHER_FORMAT))"

definition addVariable ::
  "pyruntime \<Rightarrow> SolverHistory \<Rightarrow> string \<Rightarrow> pytype \<Rightarrow> bool \<Rightarrow> string option \<Rightarrow> bool
     \<Rightarrow> error option \<times> warning list \<times> SolverHistory" where
  "addVariable rt h n ty printVar valueFormat0 overwrite =
     (if \<not> overwrite \<and> dict_contains n (variables h) then (None, [AlreadyDefined n], h)
      else
        (let vf = chooseFormat valueFormat0 ty
         in case testString rt vf ty of
              Inl e \<Rightarrow>
                (if e = ValueError \<or> e = TypeError
                 then (Some (raise_with [interpolate_type ty] (InvalidFormat vf ty)), [], h)
                 else (Some (Raised e), [], h))
            | Inr ts \<Rightarrow>
                (let dataLen = length ts;
                     nameLen = length n;
                     columnWidth = max dataLen nameLen;
                     hf = header_template (columnWidth + 4)
                 in (None, [],
                     h\<lparr>variables :=
                         dict_setitem n (HistoryVariable_init n ty (Some vf) (Some hf)) (variables h),
                       printVariables := dict_setitem n printVar (printVariables h)\<rparr>))))"

text \<open>
  The constructor.  It raises when the registration of one of its two columns does, and
  then there is no object.
\<close>

definition SolverHistory_init :: "pyruntime \<Rightarrow> bool \<Rightarrow> bool \<Rightarrow> error + SolverHistory" where
  "SolverHistory_init rt incIter incTime =
     (let h0 = \<lparr>variables = [], printVariables = [], metadata = [], iter = 0,
                startTime = Finite (- 1), includeIter = incIter, includeTime = incTime\<rparr>
      in case (if incIter then addVariable rt h0 ''Iter'' TInt True None False else (None, [], h0)) of
           (Some e, ws, h1) \<Rightarrow> Inl e
         | (None, ws, h1) \<Rightarrow>
             (case (if incTime then addVariable rt h1 ''Time'' TFloat True (Some ''{:9.3e}'') False
                    else (None, [], h1)) of
                (Some e, ws', h2) \<Rightarrow> Inl e
              | (None, ws', h2) \<Rightarrow> Inr h2))"

text \<open>\<^verbatim>\<open>time.time()\<close> is an input of the calls that read the clock.\<close>

definition startTiming :: "SolverHistory \<Rightarrow> pyfloat \<Rightarrow> SolverHistory" where
  "startTiming h now = h\<lparr>startTime := now\<rparr>"

subsection \<open>Writing a row\<close>

text \<open>The two steps that store the time and the iteration number in the caller's dictionary.\<close>

definition store_time ::
  "pyruntime \<Rightarrow> SolverHistory \<Rightarrow> pyfloat \<Rightarrow> (string, pyval) pydict
     \<Rightarrow> SolverHistory \<times> (string, pyval) pydict" where
  "store_time rt h now d =
     (if includeTime h then
        (if float_less (startTime h) (Finite 0)
         then (startTiming h now, dict_setitem ''Time'' (PFloat (Finite 0)) d)
         else (h, dict_setitem ''Time'' (PFloat (rt_float_sub rt now (startTime h))) d))
      else (h, d))"

definition store_iter :: "SolverHistory \<Rightarrow> (string, pyval) pydict \<Rightarrow> (string, pyval) pydict" where
  "store_iter h d = (if includeIter h then dict_setitem ''Iter'' (PInt (iter h)) d else d)"

text \<open>
  The body of the loop over the columns: the value popped for the column is written to it,
  and a KeyError, of the pop or of the column type, writes None instead.
\<close>

definition write_column ::
  "pyruntime \<Rightarrow> HistoryVariable \<Rightarrow> (string, pyval) pydict
     \<Rightarrow> error option \<times> HistoryVariable \<times> (string, pyval) pydict" where
  "write_column rt variable d =
     (case dict_pop (getName variable) d of
        None \<Rightarrow> (case HistoryVariable_write rt variable PNone of (e, variable') \<Rightarrow> (e, variable', d))
      | Some (v, d') \<Rightarrow>
          (case HistoryVariable_write rt variable v of
             (Some (Raised KeyError), variable') \<Rightarrow>
               (case HistoryVariable_write rt variable' PNone of (e, variable'') \<Rightarrow> (e, variable'', d'))
           | (e, variable') \<Rightarrow> (e, variable', d')))"

fun write_columns ::
  "pyruntime \<Rightarrow> (string, HistoryVariable) pydict \<Rightarrow> (string, pyval) pydict
     \<Rightarrow> error option \<times> (string, HistoryVariable) pydict \<times> (string, pyval) pydict" where
  "write_columns rt [] d = (None, [], d)"
| "write_columns rt ((k, variable) # rest) d =
     (case write_column rt variable d of
        (Some e, variable', d') \<Rightarrow> (Some e, (k, variable') # rest, d')
      | (None, variable', d') \<Rightarrow>
          (case write_columns rt rest d' of (e, rest', d'') \<Rightarrow> (e, (k, variable') # rest', d'')))"

text \<open>
  \<^verbatim>\<open>write(data)\<close> returns the error, if any, the history and the caller's dictionary,
  both as the call leaves them.
\<close>

definition SolverHistory_write ::
  "pyruntime \<Rightarrow> SolverHistory \<Rightarrow> pyfloat \<Rightarrow> (string, pyval) pydict
     \<Rightarrow> error option \<times> SolverHistory \<times> (string, pyval) pydict" where
  "SolverHistory_write rt h now d =
     (case store_time rt h now d of
        (h1, d1) \<Rightarrow>
          (case write_columns rt (variables h1) (store_iter h1 d1) of
             (Some e, vars', d') \<Rightarrow> (Some e, h1\<lparr>variables := vars'\<rparr>, d')
           | (None, vars', d') \<Rightarrow>
               (if length d' > 0
                then (Some (UnknownVariables (dict_keys d') (getVariables (h1\<lparr>variables := vars'\<rparr>))),
                      h1\<lparr>variables := vars'\<rparr>, d')
                else (None, h1\<lparr>variables := vars', iter := iter h1 + 1\<rparr>, d'))))"

definition writeFullVariableHistory ::
  "pyruntime \<Rightarrow> SolverHistory \<Rightarrow> string \<Rightarrow> pyval list \<Rightarrow> error option \<times> SolverHistory" where
  "writeFullVariableHistory rt h n values =
     (case map_of (variables h) n of
        None \<Rightarrow> (Some (UnknownVariable n (getVariables h)), h)
      | Some variable \<Rightarrow>
          (case HistoryVariable_writeFullHistory rt variable values of
             (e, variable') \<Rightarrow> (e, h\<lparr>variables := dict_setitem n variable' (variables h)\<rparr>)))"

subsection \<open>Printing rows\<close>

















subsection \<open>Saving\<close>

text \<open>
  \<^verbatim>\<open>os.path.splitext\<close> on a POSIX path: the extension starts at the last dot of the
  last component, unless only dots stand before it in that component.
\<close>

definition rfind :: "char \<Rightarrow> string \<Rightarrow> int" where
  "rfind c p = (case dropWhile (\<lambda>x. x \<noteq> c) (rev p) of [] \<Rightarrow> - 1 | x # front \<Rightarrow> int (length front))"

function skip_leading_dots :: "string \<Rightarrow> nat \<Rightarrow> nat \<Rightarrow> string \<times> string" where
  "skip_leading_dots p filenameIndex dotIndex =
     (if filenameIndex < dotIndex then
        (if take 1 (drop filenameIndex p) \<noteq> ''.'' then (take dotIndex p, drop dotIndex p)
         else skip_leading_dots p (Suc filenameIndex) dotIndex)
      else (p, []))"
  by pat_completeness auto
termination
  by (relation "measure (\<lambda>(p, filenameIndex, dotIndex). dotIndex - filenameIndex)") auto

declare skip_leading_dots.simps [simp del]

definition splitext :: "string \<Rightarrow> string \<times> string" where
  "splitext p =
     (let sepIndex = rfind CHR ''/'' p; dotIndex = rfind CHR ''.'' p
      in if dotIndex > sepIndex then skip_leading_dots p (nat (sepIndex + 1)) (nat dotIndex)
         else (p, []))"

text \<open>
  The object handed to \<^verbatim>\<open>pickle.dump\<close> is a dictionary of two items; \<open>save\<close>
  returns the name of the file it opens and that object.
\<close>

datatype saved = SavedData "(string, pyval list) pydict" | SavedMetadata "(string, pyval) pydict"

definition save :: "SolverHistory \<Rightarrow> string \<Rightarrow> string \<times> (string, saved) pydict" where
  "save h fileName =
     (let base = fst (splitext fileName);
          fileName' = base @ ''.pkl'';
          dataToSave = [(''data'', SavedData (getData h)), (''metadata'', SavedMetadata (getMetadata h))]
      in (fileName', dataToSave))"

section \<open>Histories in use\<close>

text \<open>
  The set-up phase: a history is constructed, and columns and metadata are added to it,
  the clock may be started and the history reset, before any row is written.
\<close>

inductive configured :: "pyruntime \<Rightarrow> SolverHistory \<Rightarrow> bool" for rt :: pyruntime where
  constructed: "SolverHistory_init rt incIter incTime = Inr h \<Longrightarrow> configured rt h"
| variable_added:
    "configured rt h \<Longrightarrow> addVariable rt h n ty printVar vf overwrite = (e, ws, h') \<Longrightarrow> configured rt h'"
| metadata_added: "configured rt h \<Longrightarrow> configured rt (addMetadata h n v)"
| timing_started: "configured rt h \<Longrightarrow> configured rt (startTiming h now)"
| was_reset: "configured rt h \<Longrightarrow> configured rt (reset h clearMetadata)"

text \<open>
  \<open>recorded rt h n\<close>: the history \<open>h\<close> was set up and then took \<open>n\<close> calls of
  \<^verbatim>\<open>write\<close>, each of which returned; no column was added, bulk-loaded or reset
  since the first of them.
\<close>

inductive recorded :: "pyruntime \<Rightarrow> SolverHistory \<Rightarrow> nat \<Rightarrow> bool" for rt :: pyruntime where
  no_row: "configured rt h \<Longrightarrow> recorded rt h 0"
| row_written:
    "recorded rt h n \<Longrightarrow> SolverHistory_write rt h now d = (None, h', d') \<Longrightarrow> recorded rt h' (Suc n)"
| metadata_noted: "recorded rt h n \<Longrightarrow> recorded rt (addMetadata h k v) n"
| clock_restarted: "recorded rt h n \<Longrightarrow> recorded rt (startTiming h now) n"

section \<open>A runtime for evaluating examples\<close>

text \<open>
  The examples below need a runtime to run on.  This one answers the two calls of
  \<^verbatim>\<open>str.format\<close> that the constructor makes as CPython does
  (\<^verbatim>\<open>"{: 5d}".format(0)\<close> and \<^verbatim>\<open>"{:9.3e}".format(0.0)\<close>), and subtracts two
  finite floats exactly, which is what binary64 does on the clock readings of the
  examples.  No example makes another call of it.
\<close>

definition example_runtime :: pyruntime where
  "example_runtime =
     \<lparr>rt_call = (\<lambda>ty v. Inl OtherException),
      rt_format = (\<lambda>t v. if t = ''{: 5d}'' \<and> v = PInt 0 then Inr ''    0''
                          else if t = ''{:9.3e}'' \<and> v = PFloat (Finite 0) then Inr ''0.000e+00''
                          else Inl OtherException),
      rt_float_sub = (\<lambda>a b. case (a, b) of (Finite x, Finite y) \<Rightarrow> Finite (x - y) | _ \<Rightarrow> NaN)\<rparr>"

section \<open>Example histories\<close>

text \<open>
  The history that \<^verbatim>\<open>SolverHistory()\<close> followed by \<^verbatim>\<open>addVariable("x", int)\<close>
  builds, with iteration count \<open>n\<close>, start time \<open>t0\<close> and the data of its three columns.
\<close>

definition example_history ::
  "int \<Rightarrow> pyfloat \<Rightarrow> pyval list \<Rightarrow> pyval list \<Rightarrow> pyval list \<Rightarrow> SolverHistory" where
  "example_history n t0 iterData timeData xData =
     \<lparr>variables =
        [(''Iter'', \<lparr>name = ''Iter'', varType = TInt, valueFormat = Some ''{: 5d}'',
                     headerFormat = Some ''{:^9s}'', data = iterData\<rparr>),
         (''Time'', \<lparr>name = ''Time'', varType = TFloat, valueFormat = Some ''{:9.3e}'',
                     headerFormat = Some ''{:^13s}'', data = timeData\<rparr>),
         (''x'', \<lparr>name = ''x'', varType = TInt, valueFormat = Some ''{: 5d}'',
                  headerFormat = Some ''{:^9s}'', data = xData\<rparr>)],
      printVariables = [(''Iter'', True), (''Time'', True), (''x'', False)],
      metadata = [], iter = n, startTime = t0, includeIter = True, includeTime = True\<rparr>"


section \<open>Well-formed histories\<close>

text \<open>
  What the methods keep true of a history: every column is stored under its own name, and
  the two built-in columns are registered when their flags are set.
\<close>

definition wf_history :: "SolverHistory \<Rightarrow> bool" where
  "wf_history h =
     (map (\<lambda>(k, var). name var) (variables h) = getVariables h
      \<and> (if includeIter h then ''Iter'' \<in> set (getVariables h) else True)
      \<and> (if includeTime h then ''Time'' \<in> set (getVariables h) else True))"

section \<open>Facts about digits, templates, dictionaries and paths\<close>

lemma digit_cases:
  "(d::nat) < 10 \<Longrightarrow> d = 0 \<or> d = 1 \<or> d = 2 \<or> d = 3 \<or> d = 4 \<or> d = 5 \<or> d = 6 \<or> d = 7 \<or> d = 8 \<or> d = 9"
  by arith

lemma is_digit_digit_char: "d < 10 \<Longrightarrow> is_digit (digit_char d)"
  using digit_cases [of d] by (auto simp: is_digit_def digit_char_def)

lemma digit_char_value: "d < 10 \<Longrightarrow> (of_char (digit_char d) :: nat) - 48 = d"
  using digit_cases [of d] by (auto simp: digit_char_def)

lemma digit_char_zero: "d < 10 \<Longrightarrow> (digit_char d = CHR ''0'') = (d = 0)"
  using digit_cases [of d] by (auto simp: digit_char_def)

lemma show_nat_digits: "list_all is_digit (show_nat n)"
proof (induction n rule: show_nat.induct)
  case (1 n)
  show ?case
  proof (cases "n < 10")
    case True
    then show ?thesis by (subst show_nat.simps) (simp add: is_digit_digit_char)
  next
    case False
    have "list_all is_digit (show_nat (n div 10))" using 1 False by simp
    moreover have "is_digit (digit_char (n mod 10))" by (simp add: is_digit_digit_char)
    ultimately show ?thesis using False by (subst show_nat.simps) simp
  qed
qed

lemma nat_of_digits_snoc:
  "nat_of_digits (ds @ [c]) = 10 * nat_of_digits ds + ((of_char c :: nat) - 48)"
  by (simp add: nat_of_digits_def)

lemma nat_of_digits_show_nat: "nat_of_digits (show_nat n) = n"
proof (induction n rule: show_nat.induct)
  case (1 n)
  show ?case
  proof (cases "n < 10")
    case True
    then show ?thesis by (subst show_nat.simps) (simp add: nat_of_digits_def digit_char_value)
  next
    case False
    have "nat_of_digits (show_nat (n div 10)) = n div 10" using 1 False by simp
    then show ?thesis using False
      by (subst show_nat.simps) (simp add: nat_of_digits_snoc digit_char_value)
  qed
qed

lemma show_nat_nonempty: "show_nat n \<noteq> []"
  by (subst show_nat.simps) simp

lemma hd_show_nat: "0 < n \<Longrightarrow> hd (show_nat n) \<noteq> CHR ''0''"
proof (induction n rule: show_nat.induct)
  case (1 n)
  show ?case
  proof (cases "n < 10")
    case True
    then show ?thesis using "1.prems" by (subst show_nat.simps) (simp add: digit_char_zero)
  next
    case False
    then have "0 < n div 10" by simp
    then have "hd (show_nat (n div 10)) \<noteq> CHR ''0''" using 1 False by simp
    then show ?thesis using False show_nat_nonempty [of "n div 10"]
      by (subst show_nat.simps) simp
  qed
qed

lemma centre_width_header_template: "0 < w \<Longrightarrow> centre_width (header_template w) = Some w"
proof -
  assume w: "0 < w"
  have s: "\<not> is_digit CHR ''s''" by (simp add: is_digit_def)
  have a: "takeWhile is_digit (show_nat w @ ''s}'') = show_nat w"
    using show_nat_digits [of w] s by (simp add: list_all_iff)
  have b: "dropWhile is_digit (show_nat w @ ''s}'') = ''s}''"
    using show_nat_digits [of w] s by (simp add: list_all_iff)
  show ?thesis
    using a b w
    by (simp add: centre_width_def header_template_def show_nat_nonempty hd_show_nat
        nat_of_digits_show_nat)
qed

lemma length_centre: "length (centre w s) = max w (length s)"
  by (simp add: centre_def Let_def)

lemma format_header_template:
  "0 < w \<Longrightarrow> str_format rt (header_template w) (PStr s) = Inr (centre w s)"
  by (simp add: str_format_def centre_width_header_template)

lemma map_of_map_data: "map_of (map (\<lambda>(k, var). (k, f var)) xs) n = map_option f (map_of xs n)"
  by (induction xs) auto

lemma map_of_getData: "map_of (getData h) n = map_option data (map_of (variables h) n)"
  by (simp add: getData_def HistoryVariable_getData_def map_of_map_data)

lemma rfind_split:
  assumes "dropWhile (\<lambda>x. x \<noteq> c) (rev p) = x # front"
  shows "p = rev front @ c # rev (takeWhile (\<lambda>x. x \<noteq> c) (rev p))"
proof -
  have "x = c" using assms hd_dropWhile [of "\<lambda>x. x \<noteq> c" "rev p"] by auto
  have "rev p = takeWhile (\<lambda>x. x \<noteq> c) (rev p) @ x # front"
    using assms takeWhile_dropWhile_id [of "\<lambda>x. x \<noteq> c" "rev p"] by simp
  then have "rev (rev p) = rev (takeWhile (\<lambda>x. x \<noteq> c) (rev p) @ x # front)" by simp
  then show ?thesis using \<open>x = c\<close> by simp
qed

lemma rfind_absent: "c \<notin> set p \<Longrightarrow> rfind c p = - 1"
proof -
  assume "c \<notin> set p"
  then have h: "dropWhile (\<lambda>x. x \<noteq> c) (rev p) = []" by (auto simp: dropWhile_eq_Nil_conv)
  show ?thesis unfolding rfind_def h by simp
qed

lemma rfind_last:
  assumes "c \<notin> set s"
  shows "rfind c (b @ c # s) = int (length b)"
proof -
  have "\<And>x. x \<in> set (rev s) \<Longrightarrow> x \<noteq> c" using assms by auto
  then have "dropWhile (\<lambda>x. x \<noteq> c) (rev s @ c # rev b) = dropWhile (\<lambda>x. x \<noteq> c) (c # rev b)"
    by (rule dropWhile_append2)
  then have h: "dropWhile (\<lambda>x. x \<noteq> c) (rev (b @ c # s)) = c # rev b" by simp
  show ?thesis unfolding rfind_def h by simp
qed

lemma rfind_cases:
  "(c \<notin> set p \<and> rfind c p = - 1)
   \<or> (\<exists>b s. p = b @ c # s \<and> c \<notin> set s \<and> rfind c p = int (length b))"
proof (cases "c \<in> set p")
  case False
  then show ?thesis by (simp add: rfind_absent)
next
  case True
  then obtain x front where d: "dropWhile (\<lambda>x. x \<noteq> c) (rev p) = x # front"
    by (cases "dropWhile (\<lambda>x. x \<noteq> c) (rev p)") (auto simp: dropWhile_eq_Nil_conv)
  let ?s = "rev (takeWhile (\<lambda>x. x \<noteq> c) (rev p))"
  have p: "p = rev front @ c # ?s" using rfind_split [OF d] .
  have "c \<notin> set ?s" using set_takeWhileD [of c "\<lambda>x. x \<noteq> c" "rev p"] by auto
  moreover have "rfind c p = int (length (rev front))" using d by (simp add: rfind_def)
  ultimately show ?thesis using p by blast
qed

lemma skip_leading_dots_cases:
  "skip_leading_dots p i j = (p, []) \<or> skip_leading_dots p i j = (take j p, drop j p)"
  by (induction p i j rule: skip_leading_dots.induct) (subst (1 2) skip_leading_dots.simps, auto)

lemma skip_leading_dots_found:
  "i \<le> k \<Longrightarrow> k < j \<Longrightarrow> take 1 (drop k p) \<noteq> ''.'' \<Longrightarrow> skip_leading_dots p i j = (take j p, drop j p)"
proof (induction p i j rule: skip_leading_dots.induct)
  case (1 p i j)
  show ?case
  proof (cases "take 1 (drop i p) \<noteq> ''.''")
    case True
    then show ?thesis using 1 by (subst skip_leading_dots.simps) simp
  next
    case False
    then have "i \<noteq> k" using 1 by auto
    then have "Suc i \<le> k" using 1 by simp
    then have "skip_leading_dots p (Suc i) j = (take j p, drop j p)" using 1 False by simp
    then show ?thesis using 1 False by (subst skip_leading_dots.simps) simp
  qed
qed

lemma splitext_decompose:
  "fst (splitext p) @ snd (splitext p) = p
   \<and> (snd (splitext p) = []
       \<or> (\<exists>e. snd (splitext p) = CHR ''.'' # e \<and> CHR ''.'' \<notin> set e \<and> CHR ''/'' \<notin> set e))"
proof (cases "rfind CHR ''.'' p > rfind CHR ''/'' p")
  case False
  then show ?thesis by (simp add: splitext_def)
next
  case True
  from rfind_cases [of "CHR ''.''" p] True
  obtain b e where p: "p = b @ CHR ''.'' # e" and e: "CHR ''.'' \<notin> set e"
    and r: "rfind CHR ''.'' p = int (length b)"
    using rfind_cases [of "CHR ''/''" p] by (auto; force)
  have noslash: "CHR ''/'' \<notin> set e"
  proof
    assume "CHR ''/'' \<in> set e"
    then have "CHR ''/'' \<in> set p" using p by simp
    with rfind_cases [of "CHR ''/''" p]
    obtain b' s' where p': "p = b' @ CHR ''/'' # s'" and s': "CHR ''/'' \<notin> set s'"
      and r': "rfind CHR ''/'' p = int (length b')" by auto
    have "length b' < length b" using True r r' by simp
    then have "drop (Suc (length b)) p = drop (Suc (length b) - Suc (length b')) s'"
      using p' by (simp add: Suc_diff_le)
    moreover have "drop (Suc (length b)) p = e" using p by simp
    ultimately have "set e \<subseteq> set s'" using set_drop_subset by metis
    then show False using \<open>CHR ''/'' \<in> set e\<close> s' by auto
  qed
  have sp: "splitext p = skip_leading_dots p (nat (rfind CHR ''/'' p + 1)) (length b)"
    using True r by (simp add: splitext_def)
  from skip_leading_dots_cases [of p "nat (rfind CHR ''/'' p + 1)" "length b"]
  show ?thesis
  proof
    assume "skip_leading_dots p (nat (rfind CHR ''/'' p + 1)) (length b) = (p, [])"
    then show ?thesis using sp by simp
  next
    assume "skip_leading_dots p (nat (rfind CHR ''/'' p + 1)) (length b)
              = (take (length b) p, drop (length b) p)"
    then show ?thesis using sp p e noslash by simp
  qed
qed

lemma splitext_strips:
  assumes p: "p = b @ CHR ''.'' # e" and e: "CHR ''.'' \<notin> set e" "CHR ''/'' \<notin> set e"
    and c: "\<exists>c \<in> set (takeWhile (\<lambda>x. x \<noteq> CHR ''/'') (rev b)). c \<noteq> CHR ''.''"
  shows "splitext p = (b, CHR ''.'' # e)"
proof -
  have dot: "rfind CHR ''.'' p = int (length b)" using p e rfind_last by simp
  let ?comp = "rev (takeWhile (\<lambda>x. x \<noteq> CHR ''/'') (rev b))"
  have "\<exists>pre. b = pre @ ?comp \<and> rfind CHR ''/'' p + 1 = int (length pre)"
  proof (cases "dropWhile (\<lambda>x. x \<noteq> CHR ''/'') (rev b)")
    case Nil
    then have "CHR ''/'' \<notin> set b" by (auto simp: dropWhile_eq_Nil_conv)
    then have "CHR ''/'' \<notin> set p" using p e by simp
    then have "rfind CHR ''/'' p = - 1" by (rule rfind_absent)
    moreover have "b = ?comp" using Nil takeWhile_dropWhile_id [of "\<lambda>x. x \<noteq> CHR ''/''" "rev b"]
      by (metis append_Nil2 rev_rev_ident)
    ultimately show ?thesis by (intro exI [of _ "[]"]) simp
  next
    case (Cons x front)
    have b: "b = rev front @ CHR ''/'' # ?comp" using rfind_split [OF Cons] .
    have "CHR ''/'' \<notin> set (?comp @ CHR ''.'' # e)"
      using e set_takeWhileD [of "CHR ''/''" "\<lambda>x. x \<noteq> CHR ''/''" "rev b"] by auto
    moreover have "p = rev front @ CHR ''/'' # (?comp @ CHR ''.'' # e)" using p b by simp
    ultimately have "rfind CHR ''/'' p = int (length (rev front))" using rfind_last by metis
    then show ?thesis using b by (intro exI [of _ "rev front @ ''/''"]) simp
  qed
  then obtain pre where pre: "b = pre @ ?comp" and sep: "rfind CHR ''/'' p + 1 = int (length pre)"
    by blast
  from c obtain c' where c': "c' \<in> set ?comp" "c' \<noteq> CHR ''.''" by auto
  then obtain m where m: "m < length ?comp" "?comp ! m = c'" by (metis in_set_conv_nth)
  have lb: "length b = length pre + length ?comp" using pre by (metis length_append)
  have "p ! (length pre + m) = c'"
    using p pre m by (metis append_assoc nth_append_length_plus nth_append)
  moreover have "length pre + m < length p" using p lb m by simp
  then have "drop (length pre + m) p = p ! (length pre + m) # drop (Suc (length pre + m)) p"
    by (simp add: Cons_nth_drop_Suc)
  ultimately have k: "take 1 (drop (length pre + m) p) \<noteq> ''.''"
    using c' by simp
  have "rfind CHR ''.'' p > rfind CHR ''/'' p" using dot sep lb m by simp
  then have "splitext p = skip_leading_dots p (length pre) (length b)"
    using dot sep by (simp add: splitext_def nat_int nat_add_distrib)
  also have "\<dots> = (take (length b) p, drop (length b) p)"
    using skip_leading_dots_found [of "length pre" "length pre + m" "length b" p] k lb m by simp
  finally show ?thesis using p by simp
qed

subsection \<open>One row through the columns\<close>

lemma HistoryVariable_write_None:
  "HistoryVariable_write rt var PNone = (None, var\<lparr>data := data var @ [PNone]\<rparr>)"
  by (simp add: HistoryVariable_write_def)

lemma HistoryVariable_write_cases:
  "(\<exists>c. HistoryVariable_write rt var v = (None, var\<lparr>data := data var @ [c]\<rparr>))
   \<or> (\<exists>e. HistoryVariable_write rt var v = (Some e, var)
           \<and> (e = TypeConversion v (name var) (varType var) \<or> (\<exists>x. e = Raised x)))"
  by (auto simp: HistoryVariable_write_def raise_with_def split: sum.splits pyexc.splits option.splits)

lemma write_column_cases:
  "(\<exists>c d'. write_column rt var d = (None, var\<lparr>data := data var @ [c]\<rparr>, d')
           \<and> d' = AList.delete (name var) d)
   \<or> (\<exists>e v. write_column rt var d = (Some e, var, AList.delete (name var) d)
           \<and> map_of d (name var) = Some v
           \<and> (e = TypeConversion v (name var) (varType var) \<or> (\<exists>x. e = Raised x)))"
proof (cases "map_of d (name var)")
  case None
  then have "AList.delete (name var) d = d"
    by (simp add: delete_id map_of_eq_None_iff)
  then have "write_column rt var d
               = (None, var\<lparr>data := data var @ [PNone]\<rparr>, AList.delete (name var) d)"
    using None by (simp add: write_column_def dict_pop_def getName_def HistoryVariable_write_None)
  then show ?thesis by blast
next
  case (Some v)
  from HistoryVariable_write_cases [of rt var v]
  consider (ok) c where "HistoryVariable_write rt var v = (None, var\<lparr>data := data var @ [c]\<rparr>)"
    | (err) e where "HistoryVariable_write rt var v = (Some e, var)"
        "e = TypeConversion v (name var) (varType var) \<or> (\<exists>x. e = Raised x)"
    by blast
  then show ?thesis
  proof cases
    case ok
    then have "write_column rt var d
                 = (None, var\<lparr>data := data var @ [c]\<rparr>, AList.delete (name var) d)"
      using Some by (simp add: write_column_def dict_pop_def getName_def)
    then show ?thesis by blast
  next
    case err
    note w = err(1) and e = err(2)
    show ?thesis
    proof (cases "e = Raised KeyError")
      case True
      then have "write_column rt var d
                   = (None, var\<lparr>data := data var @ [PNone]\<rparr>, AList.delete (name var) d)"
        using Some w
        by (simp add: write_column_def dict_pop_def getName_def HistoryVariable_write_None)
      then show ?thesis by blast
    next
      case False
      then have "write_column rt var d = (Some e, var, AList.delete (name var) d)"
        using Some w e
        by (auto simp: write_column_def dict_pop_def getName_def split: error.splits pyexc.splits)
      then show ?thesis using Some e by auto
    qed
  qed
qed

lemma write_column_ok:
  assumes "write_column rt var d = (None, var', d')"
  shows "\<exists>c. var' = var\<lparr>data := data var @ [c]\<rparr> \<and> d' = AList.delete (name var) d"
  using write_column_cases [of rt var d] assms by auto

lemma write_column_frame:
  assumes "write_column rt var d = (e, var', d')"
  shows "name var' = name var \<and> varType var' = varType var \<and> valueFormat var' = valueFormat var
         \<and> headerFormat var' = headerFormat var \<and> d' = AList.delete (name var) d"
  using write_column_cases [of rt var d] assms by auto

text \<open>A row that every column takes: each column grows by one, and the keys of the columns are gone.\<close>

lemma write_columns_ok:
  "write_columns rt vars d = (None, vars', d') \<Longrightarrow>
     map fst vars' = map fst vars
     \<and> map (\<lambda>(k, var). length (data var)) vars' = map (\<lambda>(k, var). Suc (length (data var))) vars
     \<and> map (\<lambda>(k, var). (name var, varType var, valueFormat var, headerFormat var)) vars'
         = map (\<lambda>(k, var). (name var, varType var, valueFormat var, headerFormat var)) vars
     \<and> d' = filter (\<lambda>(k, v). k \<notin> set (map (\<lambda>(k, var). name var) vars)) d"
proof (induction vars arbitrary: d vars' d')
  case Nil
  then show ?case by simp
next
  case (Cons kv vars)
  obtain k var where kv: "kv = (k, var)" by (cases kv)
  obtain e1 var1 d1 where c: "write_column rt var d = (e1, var1, d1)" by (cases "write_column rt var d")
  have e1: "e1 = None" using Cons.prems kv c by (cases e1) auto
  obtain e2 vars2 d2 where r: "write_columns rt vars d1 = (e2, vars2, d2)"
    by (cases "write_columns rt vars d1")
  have res: "e2 = None" "vars' = (k, var1) # vars2" "d' = d2"
    using Cons.prems kv c e1 r by auto
  from write_column_ok [of rt var d var1 d1] c e1
  obtain x where v1: "var1 = var\<lparr>data := data var @ [x]\<rparr>" and d1: "d1 = AList.delete (name var) d"
    by auto
  from Cons.IH [of d1 vars2 d2] r res
  have ih: "map fst vars2 = map fst vars"
    "map (\<lambda>(k, var). length (data var)) vars2 = map (\<lambda>(k, var). Suc (length (data var))) vars"
    "map (\<lambda>(k, var). (name var, varType var, valueFormat var, headerFormat var)) vars2
         = map (\<lambda>(k, var). (name var, varType var, valueFormat var, headerFormat var)) vars"
    "d2 = filter (\<lambda>(k, v). k \<notin> set (map (\<lambda>(k, var). name var) vars)) d1"
    by auto
  have "d2 = filter (\<lambda>(k, v). k \<notin> set (map (\<lambda>(k, var). name var) (kv # vars))) d"
    unfolding ih(4) d1 kv by (induction d) auto
  then show ?case using ih res kv v1 by simp
qed

lemma write_columns_frame:
  "write_columns rt vars d = (e, vars', d') \<Longrightarrow>
     map fst vars' = map fst vars
     \<and> map (\<lambda>(k, var). name var) vars' = map (\<lambda>(k, var). name var) vars
     \<and> map (\<lambda>(k, var). (name var, varType var, valueFormat var, headerFormat var)) vars'
         = map (\<lambda>(k, var). (name var, varType var, valueFormat var, headerFormat var)) vars"
proof (induction vars arbitrary: d vars' d' e)
  case Nil
  then show ?case by simp
next
  case (Cons kv vars)
  obtain k var where kv: "kv = (k, var)" by (cases kv)
  obtain e1 var1 d1 where c: "write_column rt var d = (e1, var1, d1)" by (cases "write_column rt var d")
  note f = write_column_frame [OF c]
  show ?case
  proof (cases e1)
    case (Some x)
    then show ?thesis using Cons.prems kv c f by auto
  next
    case None
    obtain e2 vars2 d2 where r: "write_columns rt vars d1 = (e2, vars2, d2)"
      by (cases "write_columns rt vars d1")
    then show ?thesis using Cons.prems Cons.IH [OF r] kv c f None by auto
  qed
qed

subsection \<open>What setting up a history establishes\<close>

lemma set_update_cases:
  "(k', v') \<in> set (AList.update k v al) \<Longrightarrow> (k', v') = (k, v) \<or> (k', v') \<in> set al"
  by (induction al) (auto split: if_splits)

lemma names_update:
  "map (\<lambda>(k, var). name var) al = map fst al \<Longrightarrow> name v = k \<Longrightarrow>
     map (\<lambda>(k, var). name var) (AList.update k v al) = map fst (AList.update k v al)"
  by (induction al) auto

lemma addVariable_cases:
  assumes "addVariable rt h n ty printVar vf overwrite = (e, ws, h')"
  shows "h' = h
         \<or> (\<exists>f w. h' = h\<lparr>variables := dict_setitem n (HistoryVariable_init n ty (Some f) (Some w)) (variables h),
                          printVariables := dict_setitem n printVar (printVariables h)\<rparr>)"
  using assms
  by (auto simp: addVariable_def Let_def split: if_splits sum.splits)

lemma addVariable_keeps:
  assumes a: "addVariable rt h n ty printVar vf overwrite = (e, ws, h')"
  shows "iter h' = iter h \<and> includeIter h' = includeIter h \<and> includeTime h' = includeTime h
         \<and> set (getVariables h) \<subseteq> set (getVariables h')
         \<and> (map (\<lambda>(k, var). name var) (variables h) = getVariables h
              \<longrightarrow> map (\<lambda>(k, var). name var) (variables h') = getVariables h')
         \<and> ((\<forall>(k, var) \<in> set (variables h). data var = [])
              \<longrightarrow> (\<forall>(k, var) \<in> set (variables h'). data var = []))"
proof -
  from addVariable_cases [OF a] show ?thesis
  proof
    assume "h' = h" then show ?thesis by simp
  next
    assume "\<exists>f w. h' = h\<lparr>variables := dict_setitem n (HistoryVariable_init n ty (Some f) (Some w)) (variables h),
                          printVariables := dict_setitem n printVar (printVariables h)\<rparr>"
    then obtain f w where h': "h' = h\<lparr>variables := dict_setitem n (HistoryVariable_init n ty (Some f) (Some w)) (variables h),
                          printVariables := dict_setitem n printVar (printVariables h)\<rparr>" by blast
    have "set (getVariables h) \<subseteq> set (getVariables h')"
      using dom_update [of n _ "variables h"] 
      by (auto simp: h' getVariables_def dict_keys_def dict_setitem_def)
    moreover have "map (\<lambda>(k, var). name var) (variables h) = getVariables h
              \<longrightarrow> map (\<lambda>(k, var). name var) (variables h') = getVariables h'"
      using names_update [of "variables h" "HistoryVariable_init n ty (Some f) (Some w)" n]
      by (simp add: h' getVariables_def dict_keys_def dict_setitem_def HistoryVariable_init_def)
    moreover have "(\<forall>(k, var) \<in> set (variables h). data var = [])
              \<longrightarrow> (\<forall>(k, var) \<in> set (variables h'). data var = [])"
      using set_update_cases [of _ _ n "HistoryVariable_init n ty (Some f) (Some w)" "variables h"]
      by (fastforce simp: h' dict_setitem_def HistoryVariable_init_def)
    ultimately show ?thesis by (simp add: h')
  qed
qed

lemma addVariable_registers:
  assumes "addVariable rt h n ty printVar vf overwrite = (None, ws, h')"
  shows "n \<in> set (getVariables h')"
  using assms dom_update [of n _ "variables h"]
  by (auto simp: addVariable_def Let_def dict_contains_def getVariables_def dict_keys_def
      dict_setitem_def split: if_splits sum.splits)

lemma init_wf:
  assumes "SolverHistory_init rt incIter incTime = Inr h"
  shows "wf_history h \<and> iter h = 0 \<and> (\<forall>(k, var) \<in> set (variables h). data var = [])"
proof -
  let ?h0 = "\<lparr>variables = [], printVariables = [], metadata = [], iter = 0,
              startTime = Finite (- 1), includeIter = incIter, includeTime = incTime\<rparr>"
  obtain e1 ws1 h1 where s1:
    "(if incIter then addVariable rt ?h0 ''Iter'' TInt True None False else (None, [], ?h0)) = (e1, ws1, h1)"
    by (metis prod_cases3)
  obtain e2 ws2 h2 where s2:
    "(if incTime then addVariable rt h1 ''Time'' TFloat True (Some ''{:9.3e}'') False else (None, [], h1))
       = (e2, ws2, h2)"
    by (metis prod_cases3)
  have e1: "e1 = None" and e2: "e2 = None" and h: "h = h2"
    using assms s1 s2 by (auto simp: SolverHistory_init_def Let_def split: option.splits)
  have k1: "iter h1 = 0 \<and> includeIter h1 = incIter \<and> includeTime h1 = incTime
            \<and> map (\<lambda>(k, var). name var) (variables h1) = getVariables h1
            \<and> (\<forall>(k, var) \<in> set (variables h1). data var = [])
            \<and> (incIter \<longrightarrow> ''Iter'' \<in> set (getVariables h1))"
  proof (cases incIter)
    case True
    then have a: "addVariable rt ?h0 ''Iter'' TInt True None False = (None, ws1, h1)" using s1 e1 by simp
    show ?thesis using addVariable_keeps [OF a] addVariable_registers [OF a] True
      by (simp add: getVariables_def dict_keys_def)
  next
    case False
    then show ?thesis using s1 by (auto simp: getVariables_def dict_keys_def)
  qed
  have k2: "iter h2 = 0 \<and> includeIter h2 = incIter \<and> includeTime h2 = incTime
            \<and> map (\<lambda>(k, var). name var) (variables h2) = getVariables h2
            \<and> (\<forall>(k, var) \<in> set (variables h2). data var = [])
            \<and> (incIter \<longrightarrow> ''Iter'' \<in> set (getVariables h2))
            \<and> (incTime \<longrightarrow> ''Time'' \<in> set (getVariables h2))"
  proof (cases incTime)
    case True
    then have a: "addVariable rt h1 ''Time'' TFloat True (Some ''{:9.3e}'') False = (None, ws2, h2)"
      using s2 e2 by simp
    show ?thesis using addVariable_keeps [OF a] addVariable_registers [OF a] True k1 by auto
  next
    case False
    then show ?thesis using s2 k1 by auto
  qed
  show ?thesis using k2 h by (simp add: wf_history_def)
qed

lemma configured_invariant:
  "configured rt h \<Longrightarrow>
     wf_history h \<and> iter h = 0 \<and> (\<forall>(k, var) \<in> set (variables h). data var = [])"
proof (induction rule: configured.induct)
  case (constructed incIter incTime h)
  then show ?case by (rule init_wf)
next
  case (variable_added h n ty printVar vf overwrite e ws h')
  then show ?case using addVariable_keeps [OF variable_added.hyps(2)]
    by (auto simp: wf_history_def)
next
  case (metadata_added h n v)
  then show ?case by (auto simp: addMetadata_def wf_history_def getVariables_def split: if_splits)
next
  case (timing_started h now)
  then show ?case by (auto simp: startTiming_def wf_history_def getVariables_def split: if_splits)
next
  case (was_reset h clearMetadata)
  then show ?case
    by (auto simp: reset_def wf_history_def getVariables_def dict_keys_def HistoryVariable_reset_def
        comp_def split_def split: if_splits)
qed

subsection \<open>What a call of write keeps and changes\<close>

lemma store_time_frame:
  "store_time rt h now d = (h1, d1) \<Longrightarrow>
     variables h1 = variables h \<and> iter h1 = iter h \<and> includeIter h1 = includeIter h
     \<and> includeTime h1 = includeTime h \<and> printVariables h1 = printVariables h
     \<and> metadata h1 = metadata h"
  by (auto simp: store_time_def startTiming_def split: if_splits)

lemma SolverHistory_write_frame:
  assumes "SolverHistory_write rt h now d = (e, h', d')"
  shows "getVariables h' = getVariables h
         \<and> map (\<lambda>(k, var). name var) (variables h') = map (\<lambda>(k, var). name var) (variables h)
         \<and> map (\<lambda>(k, var). (name var, varType var, valueFormat var, headerFormat var)) (variables h')
             = map (\<lambda>(k, var). (name var, varType var, valueFormat var, headerFormat var)) (variables h)
         \<and> includeIter h' = includeIter h \<and> includeTime h' = includeTime h
         \<and> printVariables h' = printVariables h \<and> metadata h' = metadata h"
proof -
  obtain h1 d1 where st: "store_time rt h now d = (h1, d1)" by (cases "store_time rt h now d")
  obtain e2 vars2 d2 where wc: "write_columns rt (variables h1) (store_iter h1 d1) = (e2, vars2, d2)"
    by (cases "write_columns rt (variables h1) (store_iter h1 d1)")
  note f = store_time_frame [OF st] and g = write_columns_frame [OF wc]
  have "h' = h1\<lparr>variables := vars2\<rparr> \<or> h' = h1\<lparr>variables := vars2, iter := iter h1 + 1\<rparr>"
    using assms st wc by (auto simp: SolverHistory_write_def split: option.splits if_splits)
  then show ?thesis using f g by (auto simp: getVariables_def dict_keys_def)
qed

lemma SolverHistory_write_wf:
  assumes "SolverHistory_write rt h now d = (e, h', d')" and "wf_history h"
  shows "wf_history h'"
  using SolverHistory_write_frame [OF assms(1)] assms(2) by (simp add: wf_history_def)

lemma SolverHistory_write_ok:
  assumes "SolverHistory_write rt h now d = (None, h', d')"
  shows "iter h' = iter h + 1 \<and> d' = []
         \<and> map (\<lambda>(k, var). length (data var)) (variables h')
             = map (\<lambda>(k, var). Suc (length (data var))) (variables h)"
proof -
  obtain h1 d1 where st: "store_time rt h now d = (h1, d1)" by (cases "store_time rt h now d")
  obtain e2 vars2 d2 where wc: "write_columns rt (variables h1) (store_iter h1 d1) = (e2, vars2, d2)"
    by (cases "write_columns rt (variables h1) (store_iter h1 d1)")
  have r: "e2 = None \<and> d2 = [] \<and> d' = d2 \<and> h' = h1\<lparr>variables := vars2, iter := iter h1 + 1\<rparr>"
    using assms st wc by (auto simp: SolverHistory_write_def split: option.splits if_splits)
  then have "write_columns rt (variables h1) (store_iter h1 d1) = (None, vars2, d2)" using wc by simp
  from write_columns_ok [OF this] store_time_frame [OF st] r show ?thesis by simp
qed

lemma lengths_step:
  assumes "map (\<lambda>(k, var). length (data var)) vars' = map (\<lambda>(k, var). Suc (length (data var))) vars"
    and "\<forall>(k, var) \<in> set vars. length (data var) = n"
  shows "\<forall>(k, var) \<in> set vars'. length (data var) = Suc n"
proof -
  have "set (map (\<lambda>(k, var). length (data var)) vars') \<subseteq> {Suc n}"
    unfolding assms(1) using assms(2) by auto
  then show ?thesis by auto
qed

lemma recorded_invariant:
  "recorded rt h n \<Longrightarrow>
     wf_history h \<and> iter h = int n \<and> (\<forall>(k, var) \<in> set (variables h). length (data var) = n)"
proof (induction rule: recorded.induct)
  case (no_row h)
  then show ?case using configured_invariant [of rt h] by auto
next
  case (row_written h n now d h' d')
  note ok = SolverHistory_write_ok [OF row_written.hyps(2)]
  have "wf_history h'" using SolverHistory_write_wf [OF row_written.hyps(2)] row_written.IH by simp 
  moreover have "iter h' = int (Suc n)" using ok row_written.IH by simp
  moreover have "\<forall>(k, var) \<in> set (variables h'). length (data var) = Suc n"
    using lengths_step [of "variables h'" "variables h" n] ok row_written.IH by simp
  ultimately show ?case by simp
next
  case (metadata_noted h n k v)
  then show ?case by (auto simp: addMetadata_def wf_history_def getVariables_def split: if_splits)
next
  case (clock_restarted h n now)
  then show ?case by (auto simp: startTiming_def wf_history_def getVariables_def split: if_splits)
qed

lemma names_are_keys:
  "map (\<lambda>(k, var). name var) vars = map fst vars \<Longrightarrow> (k, var) \<in> set vars \<Longrightarrow> name var = k"
  by (induction vars) auto

lemma filter_update_registered:
  "k0 \<in> S \<Longrightarrow> filter (\<lambda>(k, v). k \<notin> S) (AList.update k0 v0 d) = filter (\<lambda>(k, v). k \<notin> S) d"
  by (induction d) auto

lemma keys_filter: "map fst (filter (\<lambda>(k, v). P k) d) = filter P (map fst d)"
  by (induction d) auto

lemma store_iter_after_store_time: "store_iter (fst (store_time rt h now d)) = store_iter h"
  by (auto simp: store_iter_def store_time_def startTiming_def fun_eq_iff)

lemma write_columns_accepts:
  assumes "\<forall>(k, var) \<in> set vars. \<forall>v. map_of d (name var) = Some v
             \<longrightarrow> v = PNone \<or> (\<exists>c. py_call rt (varType var) v = Inr c)"
  shows "fst (write_columns rt vars d) = None"
  using assms
proof (induction vars arbitrary: d)
  case Nil
  then show ?case by simp
next
  case (Cons kv vars)
  obtain k var where kv: "kv = (k, var)" by (cases kv)
  have head: "\<forall>v. map_of d (name var) = Some v \<longrightarrow> v = PNone \<or> (\<exists>c. py_call rt (varType var) v = Inr c)"
    using Cons.prems kv by auto
  have "\<exists>var'. write_column rt var d = (None, var', AList.delete (name var) d)"
  proof (cases "map_of d (name var)")
    case None
    then have "AList.delete (name var) d = d" by (simp add: map_of_eq_None_iff)
    then show ?thesis using None
      by (simp add: write_column_def dict_pop_def getName_def HistoryVariable_write_None)
  next
    case (Some v)
    then have "v = PNone \<or> (\<exists>c. py_call rt (varType var) v = Inr c)" using head by simp
    then have "\<exists>var'. HistoryVariable_write rt var v = (None, var')"
      by (auto simp: HistoryVariable_write_def)
    then show ?thesis using Some by (auto simp: write_column_def dict_pop_def getName_def)
  qed
  then obtain var' where c: "write_column rt var d = (None, var', AList.delete (name var) d)" by blast
  have "\<forall>(k, var') \<in> set vars. \<forall>v. map_of (AList.delete (name var) d) (name var') = Some v
             \<longrightarrow> v = PNone \<or> (\<exists>c. py_call rt (varType var') v = Inr c)"
    using Cons.prems by (auto simp: delete_conv' split: if_splits)
  from Cons.IH [OF this] show ?case using kv c by (auto split: prod.splits)
qed

lemma update_shadowed:
  "AList.update k i (AList.update k2 t (AList.update k v d))
     = AList.update k i (AList.update k2 t (AList.update k v' d))"
  by (induction d) auto

lemma map_of_store_time:
  "includeTime h \<Longrightarrow>
     map_of (snd (store_time rt h now d)) ''Time''
       = Some (PFloat (if float_less (startTime h) (Finite 0) then Finite 0
                       else rt_float_sub rt now (startTime h)))"
  by (simp add: store_time_def dict_setitem_def update_conv')

subsection \<open>Printing rows that are there\<close>










section \<open>The example histories are built by the code\<close>

lemmas eval_addVariable = addVariable_def dict_contains_def dict_keys_def dict_setitem_def
  chooseFormat_def defaultFormat_def DEFAULT_OTHER_FORMAT_def testString_def str_format_def
  centre_width_def centre_def is_digit_def nat_of_digits_def HistoryVariable_init_def
  header_template_def digit_char_def show_nat.simps example_runtime_def getVariables_def Let_def

lemma example_history_configured:
  "configured example_runtime (example_history 0 (Finite (- 1)) [] [] [])"
proof -
  let ?h0 = "\<lparr>variables =
        [(''Iter'', \<lparr>name = ''Iter'', varType = TInt, valueFormat = Some ''{: 5d}'',
                     headerFormat = Some ''{:^9s}'', data = []\<rparr>),
         (''Time'', \<lparr>name = ''Time'', varType = TFloat, valueFormat = Some ''{:9.3e}'',
                     headerFormat = Some ''{:^13s}'', data = []\<rparr>)],
      printVariables = [(''Iter'', True), (''Time'', True)],
      metadata = [], iter = 0, startTime = Finite (- 1), includeIter = True, includeTime = True\<rparr>"
  have "SolverHistory_init example_runtime True True = Inr ?h0"
    by (simp add: SolverHistory_init_def eval_addVariable)
  then have "configured example_runtime ?h0" by (rule constructed)
  moreover have "addVariable example_runtime ?h0 ''x'' TInt False None False
                   = (None, [], example_history 0 (Finite (- 1)) [] [] [])"
    by (simp add: example_history_def eval_addVariable)
  ultimately show ?thesis by (rule variable_added)
qed


lemmas eval_write = SolverHistory_write_def store_time_def store_iter_def startTiming_def
  write_column_def dict_pop_def dict_setitem_def dict_keys_def getName_def getVariables_def
  HistoryVariable_write_def raise_with_def interpolate_value_def interpolate_type_def
  example_runtime_def

lemma example_history_row1:
  "SolverHistory_write example_runtime (example_history 0 (Finite (- 1)) [] [] []) (Finite 100)
       [(''x'', PInt 3)]
     = (None, example_history 1 (Finite 100) [PInt 0] [PFloat (Finite 0)] [PInt 3], [])"
  by (simp add: example_history_def eval_write)

lemma example_history_row2:
  "SolverHistory_write example_runtime
       (example_history 1 (Finite 100) [PInt 0] [PFloat (Finite 0)] [PInt 3]) (Finite (201 / 2)) []
     = (None, example_history 2 (Finite 100) [PInt 0, PInt 1]
                [PFloat (Finite 0), PFloat (Finite (1 / 2))] [PInt 3, PNone], [])"
  by (simp add: example_history_def eval_write)

lemma example_history_recorded:
  "recorded example_runtime
     (example_history 2 (Finite 100) [PInt 0, PInt 1] [PFloat (Finite 0), PFloat (Finite (1 / 2))]
        [PInt 3, PNone]) 2"
proof -
  have "recorded example_runtime (example_history 0 (Finite (- 1)) [] [] []) 0"
    using example_history_configured by (rule no_row)
  then have "recorded example_runtime
               (example_history 1 (Finite 100) [PInt 0] [PFloat (Finite 0)] [PInt 3]) (Suc 0)"
    using example_history_row1 by (rule row_written)
  then have "recorded example_runtime
     (example_history 2 (Finite 100) [PInt 0, PInt 1] [PFloat (Finite 0), PFloat (Finite (1 / 2))]
        [PInt 3, PNone]) (Suc (Suc 0))"
    using example_history_row2 by (rule row_written)
  then show ?thesis by (simp add: numeral_2_eq_2)
qed

lemma example_history_wf: "wf_history (example_history n t0 a b c)"
  by (simp add: wf_history_def example_history_def getVariables_def dict_keys_def)



section \<open>Rows written in lockstep\<close>

text \<open>
  C1.  In a history whose columns were all registered before the first row, after \<open>n\<close>
  calls of \<^verbatim>\<open>write\<close> that returned, with no bulk load, no reset and no failed call
  in between, every column holds exactly \<open>n\<close> values, so does every entry of
  \<^verbatim>\<open>getData()\<close>, and \<^verbatim>\<open>getIter()\<close> returns \<open>n\<close>.
\<close>

theorem lockstep_after_writes:
  assumes "recorded rt h n"
  shows "(\<forall>(k, var) \<in> set (variables h). length (data var) = n)
         \<and> (\<forall>(k, xs) \<in> set (getData h). length xs = n)
         \<and> getIter h = int n"
  using recorded_invariant [OF assms]
  by (auto simp: getData_def HistoryVariable_getData_def getIter_def)

theorem lockstep_after_writes_witness:
  "recorded example_runtime
     (example_history 2 (Finite 100) [PInt 0, PInt 1] [PFloat (Finite 0), PFloat (Finite (1 / 2))]
        [PInt 3, PNone]) 2
   \<and> map (\<lambda>(k, xs). length xs)
        (getData (example_history 2 (Finite 100) [PInt 0, PInt 1]
           [PFloat (Finite 0), PFloat (Finite (1 / 2))] [PInt 3, PNone])) = [2, 2, 2]
   \<and> getIter (example_history 2 (Finite 100) [PInt 0, PInt 1]
        [PFloat (Finite 0), PFloat (Finite (1 / 2))] [PInt 3, PNone]) = 2"
  using lockstep_after_writes [OF example_history_recorded] example_history_recorded
  by (simp add: example_history_def getData_def HistoryVariable_getData_def getIter_def)

section \<open>A row with an unknown key\<close>

text \<open>
  C2 (as amended).  When the row has a key that is no column's name, and every value that
  the call writes to a column is None or is converted by the type of that column, the call
  fails with the UnknownVariable error that lists the row's unregistered keys and the
  names of the columns; it does so after every column has grown by one element, and the
  iteration counter is as it was.  The history is one that the methods built
  (\<open>wf_history\<close>).
\<close>

theorem write_unknown_variable:
  assumes wf: "wf_history h"
    and unk: "k \<in> set (dict_keys d)" "k \<notin> set (getVariables h)"
    and conv: "\<forall>(n, var) \<in> set (variables h).
                 \<forall>v. map_of (store_iter h (snd (store_time rt h now d))) n = Some v
                   \<longrightarrow> v = PNone \<or> (\<exists>c. py_call rt (varType var) v = Inr c)"
  shows "\<exists>h'. SolverHistory_write rt h now d
               = (Some (UnknownVariables (filter (\<lambda>k. k \<notin> set (getVariables h)) (dict_keys d))
                          (getVariables h)),
                  h', filter (\<lambda>(k, v). k \<notin> set (getVariables h)) d)
              \<and> k \<in> set (filter (\<lambda>k. k \<notin> set (getVariables h)) (dict_keys d))
              \<and> iter h' = iter h
              \<and> getVariables h' = getVariables h
              \<and> map (\<lambda>(n, var). length (data var)) (variables h')
                  = map (\<lambda>(n, var). Suc (length (data var))) (variables h)"
proof -
  let ?S = "set (getVariables h)"
  obtain h1 d1 where st: "store_time rt h now d = (h1, d1)" by (cases "store_time rt h now d")
  note f = store_time_frame [OF st]
  let ?row = "store_iter h1 d1"
  have row: "?row = store_iter h (snd (store_time rt h now d))"
    using store_iter_after_store_time [of rt h now d] st by simp
  have names: "map (\<lambda>(k, var). name var) (variables h) = map fst (variables h)"
    using wf by (simp add: wf_history_def getVariables_def dict_keys_def)
  have "\<forall>(n, var) \<in> set (variables h1). \<forall>v. map_of ?row (name var) = Some v
          \<longrightarrow> v = PNone \<or> (\<exists>c. py_call rt (varType var) v = Inr c)"
    using conv names_are_keys [OF names] f unfolding row by fastforce
  from write_columns_accepts [OF this]
  obtain vars2 d2 where wc: "write_columns rt (variables h1) ?row = (None, vars2, d2)"
    by (cases "write_columns rt (variables h1) ?row") auto
  note ok = write_columns_ok [OF wc]
  have S: "set (map (\<lambda>(k, var). name var) (variables h1)) = ?S"
    using names f by (simp add: getVariables_def dict_keys_def)
  have d1: "filter (\<lambda>(k, v). k \<notin> ?S) d1 = filter (\<lambda>(k, v). k \<notin> ?S) d"
    using st wf filter_update_registered [of "''Time''" ?S _ d]
    by (auto simp: store_time_def wf_history_def dict_setitem_def split: if_splits)
  have "filter (\<lambda>(k, v). k \<notin> ?S) ?row = filter (\<lambda>(k, v). k \<notin> ?S) d1"
    using wf f filter_update_registered [of "''Iter''" ?S _ d1]
    by (auto simp: store_iter_def wf_history_def dict_setitem_def split: if_splits)
  then have d2: "d2 = filter (\<lambda>(k, v). k \<notin> ?S) d" using ok S d1 by simp
  have keys: "dict_keys d2 = filter (\<lambda>k. k \<notin> ?S) (dict_keys d)"
    unfolding d2 dict_keys_def by (rule keys_filter)
  have mem: "k \<in> set (filter (\<lambda>k. k \<notin> ?S) (dict_keys d))" using unk by simp
  then have "dict_keys d2 \<noteq> []" unfolding keys by (metis empty_iff list.set(1))
  then have "d2 \<noteq> []" by (auto simp: dict_keys_def)
  then have "SolverHistory_write rt h now d
               = (Some (UnknownVariables (dict_keys d2) (getVariables (h1\<lparr>variables := vars2\<rparr>))),
                  h1\<lparr>variables := vars2\<rparr>, d2)"
    using st wc by (simp add: SolverHistory_write_def)
  moreover have "getVariables (h1\<lparr>variables := vars2\<rparr>) = getVariables h"
    using ok f by (simp add: getVariables_def dict_keys_def)
  ultimately show ?thesis using keys d2 mem ok f by (intro exI [of _ "h1\<lparr>variables := vars2\<rparr>"]) simp
qed

theorem write_unknown_variable_witness:
  "wf_history (example_history 0 (Finite (- 1)) [] [] [])
   \<and> ''y'' \<in> set (dict_keys [(''x'', PInt 5), (''y'', PInt 1)])
   \<and> ''y'' \<notin> set (getVariables (example_history 0 (Finite (- 1)) [] [] []))
   \<and> SolverHistory_write example_runtime (example_history 0 (Finite (- 1)) [] [] []) (Finite 100)
        [(''x'', PInt 5), (''y'', PInt 1)]
     = (Some (UnknownVariables [''y''] [''Iter'', ''Time'', ''x'']),
        example_history 0 (Finite 100) [PInt 0] [PFloat (Finite 0)] [PInt 5],
        [(''y'', PInt 1)])"
  using write_unknown_variable
    [of "example_history 0 (Finite (- 1)) [] [] []" "''y''" "[(''x'', PInt 5), (''y'', PInt 1)]"
        example_runtime "Finite 100"]
  by (simp add: example_history_wf) (simp add: example_history_def eval_write)

text \<open>
  The claim as the specification states it fails when a conversion fails first:
  \<^verbatim>\<open>write({"x": "abc", "y": 1})\<close> on a history with an integer column
  \<^verbatim>\<open>x\<close> and no column \<^verbatim>\<open>y\<close> raises the TypeConversion error of
  \<^verbatim>\<open>x\<close>, the UnknownVariable error is never raised, and \<^verbatim>\<open>x\<close> has not
  grown.
\<close>

theorem write_conversion_first_counterexample:
  "''y'' \<in> set (dict_keys [(''x'', PStr ''abc''), (''y'', PInt 1)])
   \<and> ''y'' \<notin> set (getVariables (example_history 0 (Finite (- 1)) [] [] []))
   \<and> SolverHistory_write example_runtime (example_history 0 (Finite (- 1)) [] [] []) (Finite 100)
        [(''x'', PStr ''abc''), (''y'', PInt 1)]
     = (Some (TypeConversion (PStr ''abc'') ''x'' TInt),
        example_history 0 (Finite 100) [PInt 0] [PFloat (Finite 0)] [],
        [(''y'', PInt 1)])"
  by (simp add: example_history_def eval_write int_literal_def is_digit_def not_in_int_literal_def)

section \<open>Writing one value to a column\<close>

text \<open>
  C3 (as amended).  \<^verbatim>\<open>HistoryVariable.write\<close> appends exactly one element when the
  value is None or the column type converts it.  When the conversion raises ValueError and
  the message of the error can be built, the call fails with the TypeConversion error that
  names the value, the column and the type; the message can be built unless the value is
  an integer of more than 4300 digits or an object that is not a number or a string, or the
  type is a caller's callable whose representation raises, and then an exception of
  building it, if there is one, leaves the call instead.
  Any other exception of the conversion leaves the call as it is.  Whenever the call
  fails, the column is as it was.
\<close>

theorem HistoryVariable_write_coercion:
  "(v = PNone \<longrightarrow>
      HistoryVariable_write rt var v = (None, var\<lparr>data := data var @ [PNone]\<rparr>))
   \<and> (v \<noteq> PNone \<and> py_call rt (varType var) v = Inr c \<longrightarrow>
      HistoryVariable_write rt var v = (None, var\<lparr>data := data var @ [c]\<rparr>))
   \<and> (v \<noteq> PNone \<and> py_call rt (varType var) v = Inl ValueError
        \<and> interpolate_value rt v = None \<and> interpolate_type (varType var) = None \<longrightarrow>
      HistoryVariable_write rt var v = (Some (TypeConversion v (name var) (varType var)), var))
   \<and> (v \<noteq> PNone \<and> py_call rt (varType var) v = Inl ValueError
        \<and> first_raise [interpolate_value rt v, interpolate_type (varType var)] = Some x \<longrightarrow>
      HistoryVariable_write rt var v = (Some (Raised x), var))
   \<and> ((\<forall>i. v = PInt i \<longrightarrow> int_digits i \<le> 4300) \<and> (\<forall>k. v \<noteq> PObject k) \<longrightarrow>
        interpolate_value rt v = None)
   \<and> ((\<forall>f z r. varType var \<noteq> TOther f z r) \<longrightarrow> interpolate_type (varType var) = None)
   \<and> (v \<noteq> PNone \<and> py_call rt (varType var) v = Inl e \<and> e \<noteq> ValueError \<longrightarrow>
      HistoryVariable_write rt var v = (Some (Raised e), var))
   \<and> (fst (HistoryVariable_write rt var v) = None \<longrightarrow>
      length (data (snd (HistoryVariable_write rt var v))) = length (data var) + 1)
   \<and> (fst (HistoryVariable_write rt var v) \<noteq> None \<longrightarrow>
      snd (HistoryVariable_write rt var v) = var)"
proof -
  have a: "(\<forall>i. v = PInt i \<longrightarrow> int_digits i \<le> 4300) \<and> (\<forall>k. v \<noteq> PObject k) \<longrightarrow>
             interpolate_value rt v = None"
    by (cases v) (auto simp: interpolate_value_def interpolate_int_def)
  have b: "(\<forall>f z r. varType var \<noteq> TOther f z r) \<longrightarrow> interpolate_type (varType var) = None"
    by (cases "varType var") (auto simp: interpolate_type_def)
  show ?thesis
    using a b
    by (cases e)
      (auto simp: HistoryVariable_write_def raise_with_def split: sum.splits pyexc.splits option.splits)
qed

theorem HistoryVariable_write_coercion_witness:
  "HistoryVariable_write example_runtime (HistoryVariable_init ''x'' TInt None None) PNone
     = (None, (HistoryVariable_init ''x'' TInt None None)\<lparr>data := [PNone]\<rparr>)
   \<and> HistoryVariable_write example_runtime (HistoryVariable_init ''x'' TInt None None) (PStr ''12'')
     = (None, (HistoryVariable_init ''x'' TInt None None)\<lparr>data := [PInt 12]\<rparr>)
   \<and> py_call example_runtime TInt (PStr ''abc'') = Inl ValueError
   \<and> interpolate_value example_runtime (PStr ''abc'') = None
   \<and> interpolate_type TInt = None
   \<and> HistoryVariable_write example_runtime (HistoryVariable_init ''x'' TInt None None) (PStr ''abc'')
     = (Some (TypeConversion (PStr ''abc'') ''x'' TInt), HistoryVariable_init ''x'' TInt None None)
   \<and> HistoryVariable_write example_runtime (HistoryVariable_init ''x'' TInt None None)
        (PComplex (Finite 0) (Finite 1))
     = (Some (Raised TypeError), HistoryVariable_init ''x'' TInt None None)
   \<and> first_raise [interpolate_value example_runtime (PInt 7),
        interpolate_type (TOther (\<lambda>v. Inl ValueError) (Inr (PStr [])) (Some KeyError))] = Some KeyError
   \<and> HistoryVariable_write example_runtime
        (HistoryVariable_init ''y'' (TOther (\<lambda>v. Inl ValueError) (Inr (PStr [])) (Some KeyError)) None None)
        (PInt 7)
     = (Some (Raised KeyError),
        HistoryVariable_init ''y'' (TOther (\<lambda>v. Inl ValueError) (Inr (PStr [])) (Some KeyError)) None None)"
  using
    HistoryVariable_write_coercion
      [of PNone example_runtime "HistoryVariable_init ''x'' TInt None None" PNone KeyError TypeError]
    HistoryVariable_write_coercion
      [of "PStr ''12''" example_runtime "HistoryVariable_init ''x'' TInt None None" "PInt 12" KeyError TypeError]
    HistoryVariable_write_coercion
      [of "PStr ''abc''" example_runtime "HistoryVariable_init ''x'' TInt None None" PNone KeyError TypeError]
    HistoryVariable_write_coercion
      [of "PComplex (Finite 0) (Finite 1)" example_runtime
          "HistoryVariable_init ''x'' TInt None None" PNone KeyError TypeError]
    HistoryVariable_write_coercion
      [of "PInt 7" example_runtime
          "HistoryVariable_init ''y'' (TOther (\<lambda>v. Inl ValueError) (Inr (PStr [])) (Some KeyError)) None None"
          PNone KeyError TypeError]
  by (simp add: HistoryVariable_init_def int_literal_def is_digit_def nat_of_digits_def
      not_in_int_literal_def interpolate_value_def interpolate_type_def interpolate_int_def
      int_digits_def show_nat.simps)

text \<open>
  The claim as the specification states it fails on \<^verbatim>\<open>int(float("inf"))\<close>: the
  conversion is impossible, and the call fails with the OverflowError of the conversion,
  not with the TypeConversion error.
\<close>

theorem HistoryVariable_write_overflow_counterexample:
  "py_call example_runtime TInt (PFloat PosInf) = Inl OverflowError
   \<and> HistoryVariable_write example_runtime (HistoryVariable_init ''x'' TInt None None) (PFloat PosInf)
       = (Some (Raised OverflowError), HistoryVariable_init ''x'' TInt None None)
   \<and> fst (HistoryVariable_write example_runtime (HistoryVariable_init ''x'' TInt None None)
            (PFloat PosInf))
       \<noteq> Some (TypeConversion (PFloat PosInf) ''x'' TInt)"
  by (simp add: HistoryVariable_write_def HistoryVariable_init_def)

section \<open>Printing rows\<close>




section \<open>Registering a column\<close>

text \<open>
  C5.  Registering a name that already has a column, without \<^verbatim>\<open>overwrite\<close>, raises
  nothing, emits the warning, and leaves the history as it was: the column with its type,
  its two formats and its data, and its print flag.
\<close>

theorem addVariable_duplicate_noop:
  assumes "n \<in> set (getVariables h)"
  shows "addVariable rt h n ty printVar vf False = (None, [AlreadyDefined n], h)"
  using assms by (simp add: addVariable_def dict_contains_def getVariables_def)

theorem addVariable_duplicate_noop_witness:
  "''x'' \<in> set (getVariables (example_history 0 (Finite (- 1)) [] [] []))
   \<and> addVariable example_runtime (example_history 0 (Finite (- 1)) [] [] []) ''x'' TFloat False None False
       = (None, [AlreadyDefined ''x''], example_history 0 (Finite (- 1)) [] [] [])
   \<and> map_option varType (map_of (variables (example_history 0 (Finite (- 1)) [] [] [])) ''x'') = Some TInt"
  using addVariable_duplicate_noop
    [of "''x''" "example_history 0 (Finite (- 1)) [] [] []" example_runtime TFloat False None]
  by (simp add: example_history_def getVariables_def dict_keys_def)

text \<open>
  C6.  When \<^verbatim>\<open>addVariable\<close> registers a column (the name is new, or
  \<^verbatim>\<open>overwrite\<close> is set) and returns, the value format rendered the default value of
  the type as some string \<open>ts\<close>, and the header template of the column centres its
  argument in \<open>max (length ts) (length n) + 4\<close> characters: a rendered header is at least
  that wide, and the column's own name is rendered exactly that wide.
\<close>

theorem addVariable_header_template:
  assumes "overwrite \<or> n \<notin> set (getVariables h)"
    and "addVariable rt h n ty printVar vf overwrite = (None, ws, h')"
  shows "\<exists>ts var.
           testString rt (chooseFormat vf ty) ty = Inr ts
           \<and> map_of (variables h') n = Some var
           \<and> headerFormat var = Some (header_template (max (length ts) (length n) + 4))
           \<and> (\<forall>s. getFormattedHeaderString rt var (Some s)
                      = Inr (centre (max (length ts) (length n) + 4) s)
                    \<and> length (centre (max (length ts) (length n) + 4) s)
                        = max (max (length ts) (length n) + 4) (length s))
           \<and> getFormattedHeaderString rt var None = Inr (centre (max (length ts) (length n) + 4) n)
           \<and> length (centre (max (length ts) (length n) + 4) n) = max (length ts) (length n) + 4"
proof -
  from assms obtain ts where ts: "testString rt (chooseFormat vf ty) ty = Inr ts"
    by (cases "testString rt (chooseFormat vf ty) ty")
      (auto simp: addVariable_def dict_contains_def getVariables_def Let_def split: if_splits)
  let ?w = "max (length ts) (length n) + 4"
  let ?var = "HistoryVariable_init n ty (Some (chooseFormat vf ty)) (Some (header_template ?w))"
  have h': "variables h' = dict_setitem n ?var (variables h)"
    using assms ts
    by (auto simp: addVariable_def dict_contains_def getVariables_def Let_def split: if_splits)
  have "map_of (variables h') n = Some ?var"
    by (simp add: h' dict_setitem_def update_conv')
  moreover have "headerFormat ?var = Some (header_template ?w)"
    by (simp add: HistoryVariable_init_def)
  moreover have "\<And>s. getFormattedHeaderString rt ?var s
                   = Inr (centre ?w (case s of None \<Rightarrow> n | Some t \<Rightarrow> t))"
    by (simp add: getFormattedHeaderString_def HistoryVariable_init_def format_header_template
        split: option.splits)
  ultimately show ?thesis using ts by (auto simp: length_centre intro!: exI [of _ ts] exI [of _ ?var])
qed

theorem addVariable_header_template_witness:
  "addVariable example_runtime (example_history 0 (Finite (- 1)) [] [] []) ''Residual'' TInt True None False
     = (None, [],
        (example_history 0 (Finite (- 1)) [] [] [])
          \<lparr>variables := variables (example_history 0 (Finite (- 1)) [] [] [])
              @ [(''Residual'', \<lparr>name = ''Residual'', varType = TInt, valueFormat = Some ''{: 5d}'',
                                 headerFormat = Some ''{:^12s}'', data = []\<rparr>)],
            printVariables := printVariables (example_history 0 (Finite (- 1)) [] [] [])
              @ [(''Residual'', True)]\<rparr>)
   \<and> testString example_runtime (chooseFormat None TInt) TInt = Inr ''    0''
   \<and> getFormattedHeaderString example_runtime
        \<lparr>name = ''Residual'', varType = TInt, valueFormat = Some ''{: 5d}'',
          headerFormat = Some ''{:^12s}'', data = []\<rparr> None = Inr ''  Residual  ''"
  using addVariable_header_template
    [of False "''Residual''" "example_history 0 (Finite (- 1)) [] [] []" example_runtime TInt True None "[]"
        "(example_history 0 (Finite (- 1)) [] [] [])
          \<lparr>variables := variables (example_history 0 (Finite (- 1)) [] [] [])
              @ [(''Residual'', \<lparr>name = ''Residual'', varType = TInt, valueFormat = Some ''{: 5d}'',
                                 headerFormat = Some ''{:^12s}'', data = []\<rparr>)],
            printVariables := printVariables (example_history 0 (Finite (- 1)) [] [] [])
              @ [(''Residual'', True)]\<rparr>"]
  by (simp add: example_history_def eval_addVariable getFormattedHeaderString_def)

section \<open>Loading a whole column\<close>

text \<open>
  C7.  On a column of type float, whatever it held before,
  \<^verbatim>\<open>writeFullHistory([1.0, None, 3.5])\<close> returns and leaves exactly
  \<^verbatim>\<open>[1.0, None, 3.5]\<close> as the data of the column, None in its place; the same list
  is the entry of the column in \<^verbatim>\<open>getData()\<close> after
  \<^verbatim>\<open>writeFullVariableHistory\<close>.
\<close>

theorem writeFullHistory_roundtrip:
  assumes "map_of (variables h) n = Some var" and "varType var = TFloat"
  shows "HistoryVariable_writeFullHistory rt var [PFloat (Finite 1), PNone, PFloat (Finite (7 / 2))]
           = (None, var\<lparr>data := [PFloat (Finite 1), PNone, PFloat (Finite (7 / 2))]\<rparr>)
         \<and> fst (writeFullVariableHistory rt h n [PFloat (Finite 1), PNone, PFloat (Finite (7 / 2))]) = None
         \<and> map_of (getData (snd (writeFullVariableHistory rt h n
                [PFloat (Finite 1), PNone, PFloat (Finite (7 / 2))]))) n
           = Some [PFloat (Finite 1), PNone, PFloat (Finite (7 / 2))]"
  using assms
  by (simp add: HistoryVariable_writeFullHistory_def writeFullVariableHistory_def map_of_getData
      dict_setitem_def update_conv')

theorem writeFullHistory_roundtrip_witness:
  "map_of (variables (example_history 0 (Finite (- 1)) [] [PFloat (Finite 9)] [])) ''Time''
     = Some \<lparr>name = ''Time'', varType = TFloat, valueFormat = Some ''{:9.3e}'',
             headerFormat = Some ''{:^13s}'', data = [PFloat (Finite 9)]\<rparr>
   \<and> writeFullVariableHistory example_runtime (example_history 0 (Finite (- 1)) [] [PFloat (Finite 9)] [])
        ''Time'' [PFloat (Finite 1), PNone, PFloat (Finite (7 / 2))]
     = (None, example_history 0 (Finite (- 1)) [] [PFloat (Finite 1), PNone, PFloat (Finite (7 / 2))] [])
   \<and> map_of (getData (example_history 0 (Finite (- 1)) []
                [PFloat (Finite 1), PNone, PFloat (Finite (7 / 2))] [])) ''Time''
     = Some [PFloat (Finite 1), PNone, PFloat (Finite (7 / 2))]"
  using writeFullHistory_roundtrip
    [of "example_history 0 (Finite (- 1)) [] [PFloat (Finite 9)] []" "''Time''"
        "\<lparr>name = ''Time'', varType = TFloat, valueFormat = Some ''{:9.3e}'',
             headerFormat = Some ''{:^13s}'', data = [PFloat (Finite 9)]\<rparr>" example_runtime]
  by (simp add: example_history_def writeFullVariableHistory_def HistoryVariable_writeFullHistory_def
      dict_setitem_def getData_def HistoryVariable_getData_def)

section \<open>Saving\<close>

text \<open>
  C8.  \<^verbatim>\<open>save\<close> writes to the stem of the path followed by \<^verbatim>\<open>.pkl\<close>.  The
  path is its stem followed by its extension, which is empty or a dot followed by
  characters that are neither a dot nor a slash; and when the path ends in such an
  extension after a last component that is not made of dots only, the extension is what
  \<^verbatim>\<open>save\<close> replaces.  The object written has the two keys \<^verbatim>\<open>data\<close>, the
  data of every column with its None entries, and \<^verbatim>\<open>metadata\<close>, in this order.
\<close>

theorem save_path_and_payload:
  "fst (save h fileName) = fst (splitext fileName) @ ''.pkl''
   \<and> fst (splitext fileName) @ snd (splitext fileName) = fileName
   \<and> (snd (splitext fileName) = []
       \<or> (\<exists>e. snd (splitext fileName) = CHR ''.'' # e \<and> CHR ''.'' \<notin> set e \<and> CHR ''/'' \<notin> set e))
   \<and> (\<forall>b e. fileName = b @ CHR ''.'' # e \<and> CHR ''.'' \<notin> set e \<and> CHR ''/'' \<notin> set e
              \<and> (\<exists>c \<in> set (takeWhile (\<lambda>x. x \<noteq> CHR ''/'') (rev b)). c \<noteq> CHR ''.'')
          \<longrightarrow> fst (save h fileName) = b @ ''.pkl'')
   \<and> snd (save h fileName)
       = [(''data'', SavedData (getData h)), (''metadata'', SavedMetadata (getMetadata h))]
   \<and> dict_keys (snd (save h fileName)) = [''data'', ''metadata'']
   \<and> getData h = map (\<lambda>(k, var). (k, data var)) (variables h)
   \<and> getMetadata h = metadata h"
proof -
  have "\<And>b e. fileName = b @ CHR ''.'' # e \<Longrightarrow> CHR ''.'' \<notin> set e \<Longrightarrow> CHR ''/'' \<notin> set e
          \<Longrightarrow> \<exists>c \<in> set (takeWhile (\<lambda>x. x \<noteq> CHR ''/'') (rev b)). c \<noteq> CHR ''.''
          \<Longrightarrow> fst (save h fileName) = b @ ''.pkl''"
    using splitext_strips by (simp add: save_def)
  then show ?thesis
    using splitext_decompose [of fileName]
    by (simp add: save_def dict_keys_def getData_def HistoryVariable_getData_def getMetadata_def)
qed

theorem save_path_and_payload_witness:
  "save (example_history 1 (Finite 100) [PInt 0] [PFloat (Finite 0)] [PNone]) ''results/run1.dat''
     = (''results/run1.pkl'',
        [(''data'', SavedData [(''Iter'', [PInt 0]), (''Time'', [PFloat (Finite 0)]), (''x'', [PNone])]),
         (''metadata'', SavedMetadata [])])
   \<and> splitext ''results/run1.dat'' = (''results/run1'', ''.dat'')
   \<and> splitext ''run.tar.gz'' = (''run.tar'', ''.gz'')
   \<and> splitext ''out.d/.hidden'' = (''out.d/.hidden'', [])"
  using save_path_and_payload
    [of "example_history 1 (Finite 100) [PInt 0] [PFloat (Finite 0)] [PNone]" "''results/run1.dat''"]
  by (simp add: save_def splitext_def rfind_def skip_leading_dots.simps example_history_def
      getData_def HistoryVariable_getData_def getMetadata_def)

section \<open>Resetting\<close>

text \<open>
  C9.  \<^verbatim>\<open>reset\<close> sets the iteration counter to zero and the start time to
  \<open>-1.0\<close> and empties the data of every column; the columns, each with its name, type
  and formats, the print flags and the two construction flags stay, and the metadata stay
  unless \<^verbatim>\<open>clearMetadata\<close> is set, in which case they are emptied.
\<close>

theorem reset_frame:
  "iter (reset h clearMetadata) = 0
   \<and> startTime (reset h clearMetadata) = Finite (- 1)
   \<and> map (\<lambda>(k, var). data var) (variables (reset h clearMetadata)) = replicate (length (variables h)) []
   \<and> map (\<lambda>(k, var). (k, name var, varType var, valueFormat var, headerFormat var))
        (variables (reset h clearMetadata))
     = map (\<lambda>(k, var). (k, name var, varType var, valueFormat var, headerFormat var)) (variables h)
   \<and> printVariables (reset h clearMetadata) = printVariables h
   \<and> includeIter (reset h clearMetadata) = includeIter h
   \<and> includeTime (reset h clearMetadata) = includeTime h
   \<and> metadata (reset h False) = metadata h
   \<and> metadata (reset h True) = []"
  by (simp add: reset_def HistoryVariable_reset_def split_def map_replicate_const comp_def)

theorem reset_frame_witness:
  "reset (example_history 2 (Finite 100) [PInt 0, PInt 1] [PFloat (Finite 0), PFloat (Finite (1 / 2))]
            [PInt 3, PNone]) False
     = example_history 0 (Finite (- 1)) [] [] []"
  using reset_frame
    [of "example_history 2 (Finite 100) [PInt 0, PInt 1] [PFloat (Finite 0), PFloat (Finite (1 / 2))]
            [PInt 3, PNone]" False]
  by (simp add: example_history_def reset_def HistoryVariable_reset_def)

section \<open>The caller's dictionary\<close>

text \<open>
  C10.  A call of \<^verbatim>\<open>write\<close> that returns leaves the caller's dictionary empty.
  When the time is tracked, the call does the same whatever value the caller put under
  \<^verbatim>\<open>"Time"\<close>, and the row that reaches the columns holds the elapsed time there
  (0.0 on the call that starts the clock); when the iteration is tracked, the same holds of
  \<^verbatim>\<open>"Iter"\<close> and the iteration counter.
\<close>

theorem write_consumes_row:
  "(fst (SolverHistory_write rt h now d) = None \<longrightarrow> snd (snd (SolverHistory_write rt h now d)) = [])
   \<and> (includeTime h \<longrightarrow>
        SolverHistory_write rt h now (dict_setitem ''Time'' v d)
          = SolverHistory_write rt h now (dict_setitem ''Time'' v' d)
        \<and> map_of (store_iter h (snd (store_time rt h now d))) ''Time''
            = Some (PFloat (if float_less (startTime h) (Finite 0) then Finite 0
                            else rt_float_sub rt now (startTime h))))
   \<and> (includeIter h \<longrightarrow>
        SolverHistory_write rt h now (dict_setitem ''Iter'' v d)
          = SolverHistory_write rt h now (dict_setitem ''Iter'' v' d)
        \<and> map_of (store_iter h (snd (store_time rt h now d))) ''Iter'' = Some (PInt (iter h)))"
proof (intro conjI impI)
  assume "fst (SolverHistory_write rt h now d) = None"
  then obtain h' d' where "SolverHistory_write rt h now d = (None, h', d')"
    by (cases "SolverHistory_write rt h now d") auto
  then show "snd (snd (SolverHistory_write rt h now d)) = []"
    using SolverHistory_write_ok [of rt h now d h' d'] by simp
next
  assume "includeTime h"
  then have "store_time rt h now (dict_setitem ''Time'' v d)
               = store_time rt h now (dict_setitem ''Time'' v' d)"
    by (simp add: store_time_def dict_setitem_def)
  then show "SolverHistory_write rt h now (dict_setitem ''Time'' v d)
          = SolverHistory_write rt h now (dict_setitem ''Time'' v' d)"
    by (simp add: SolverHistory_write_def)
next
  assume "includeTime h"
  then show "map_of (store_iter h (snd (store_time rt h now d))) ''Time''
            = Some (PFloat (if float_less (startTime h) (Finite 0) then Finite 0
                            else rt_float_sub rt now (startTime h)))"
    using map_of_store_time [of h rt now d]
    by (simp add: store_iter_def dict_setitem_def update_conv')
next
  assume i: "includeIter h"
  obtain h1 dA where A: "store_time rt h now (dict_setitem ''Iter'' v d) = (h1, dA)"
    by (cases "store_time rt h now (dict_setitem ''Iter'' v d)")
  obtain dB where B: "store_time rt h now (dict_setitem ''Iter'' v' d) = (h1, dB)"
    using A by (cases "store_time rt h now (dict_setitem ''Iter'' v' d)")
      (auto simp: store_time_def split: if_splits)
  have inc: "includeIter h1" using store_time_frame [OF A] i by simp
  have "store_iter h1 dA = store_iter h1 dB"
    using inc A B update_shadowed [of "''Iter''" _ "''Time''" _ v d v']
    by (auto simp: store_iter_def store_time_def dict_setitem_def split: if_splits)
  then show "SolverHistory_write rt h now (dict_setitem ''Iter'' v d)
          = SolverHistory_write rt h now (dict_setitem ''Iter'' v' d)"
    unfolding SolverHistory_write_def A B by simp
next
  assume "includeIter h"
  then show "map_of (store_iter h (snd (store_time rt h now d))) ''Iter'' = Some (PInt (iter h))"
    by (simp add: store_iter_def dict_setitem_def update_conv')
qed

theorem write_consumes_row_witness:
  "includeTime (example_history 1 (Finite 100) [PInt 0] [PFloat (Finite 0)] [PInt 3])
   \<and> includeIter (example_history 1 (Finite 100) [PInt 0] [PFloat (Finite 0)] [PInt 3])
   \<and> SolverHistory_write example_runtime
        (example_history 1 (Finite 100) [PInt 0] [PFloat (Finite 0)] [PInt 3]) (Finite (201 / 2))
        [(''Time'', PFloat (Finite 77)), (''x'', PInt 4), (''Iter'', PInt 99)]
     = (None,
        example_history 2 (Finite 100) [PInt 0, PInt 1] [PFloat (Finite 0), PFloat (Finite (1 / 2))]
          [PInt 3, PInt 4],
        [])"
  using write_consumes_row
    [of example_runtime "example_history 1 (Finite 100) [PInt 0] [PFloat (Finite 0)] [PInt 3]"
        "Finite (201 / 2)" "[(''Time'', PFloat (Finite 77)), (''x'', PInt 4), (''Iter'', PInt 99)]"
        "PFloat (Finite 77)" "PFloat (Finite 78)"]
  by (simp add: example_history_def eval_write)

end
